theory Spec2Isabelle
  imports Main "HOL-Library.Word"
begin

unbundle bit_operations_syntax

section \<open>Status codes, access masks and flag helpers\<close>

text \<open>
  The dispatcher of \<^verbatim>\<open>src/server/IoDispatchers.cpp\<close> works on 32-bit status codes and
  bit masks. \<^verbatim>\<open>NTSTATUS\<close> and \<^verbatim>\<open>HRESULT\<close> are signed 32-bit values whose sign bit
  marks failure; \<^verbatim>\<open>NT_SUCCESS\<close>, \<^verbatim>\<open>SUCCEEDED\<close> and \<^verbatim>\<open>FAILED\<close> test that sign.
  The numeric values below are those of the Windows headers the file includes
  (\<^verbatim>\<open>ntstatus.h\<close>, \<^verbatim>\<open>winnt.h\<close>, \<^verbatim>\<open>winuser.h\<close>, \<^verbatim>\<open>host/server.h\<close>).
\<close>

type_synonym NTSTATUS = "32 word"
type_synonym HRESULT = "32 word"
type_synonym DWORD = "32 word"
type_synonym ULONG_PTR = "64 word"

definition NT_SUCCESS :: "NTSTATUS \<Rightarrow> bool" where
  "NT_SUCCESS Status = (0 \<le> sint Status)"

definition SUCCEEDED :: "HRESULT \<Rightarrow> bool" where
  "SUCCEEDED hr = (0 \<le> sint hr)"

definition FAILED :: "HRESULT \<Rightarrow> bool" where
  "FAILED hr = (sint hr < 0)"

definition STATUS_SUCCESS :: NTSTATUS where
  "STATUS_SUCCESS = 0"

definition STATUS_INVALID_PARAMETER :: NTSTATUS where
  "STATUS_INVALID_PARAMETER = 0xC000000D"

definition STATUS_NO_MEMORY :: NTSTATUS where
  "STATUS_NO_MEMORY = 0xC0000017"

definition S_OK :: HRESULT where
  "S_OK = 0"

definition E_FAIL :: HRESULT where
  "E_FAIL = 0x80004005"

definition GENERIC_READ :: DWORD where
  "GENERIC_READ = 0x80000000"

definition GENERIC_WRITE :: DWORD where
  "GENERIC_WRITE = 0x40000000"

definition GENERIC_EXECUTE :: DWORD where
  "GENERIC_EXECUTE = 0x20000000"

definition FILE_SHARE_READ :: DWORD where
  "FILE_SHARE_READ = 0x00000001"

definition FILE_SHARE_WRITE :: DWORD where
  "FILE_SHARE_WRITE = 0x00000002"

definition CONSOLE_HAS_FOCUS :: DWORD where
  "CONSOLE_HAS_FOCUS = 0x00000004"

definition CONSOLE_INITIALIZED :: DWORD where
  "CONSOLE_INITIALIZED = 0x40000000"

definition WSF_VISIBLE :: DWORD where
  "WSF_VISIBLE = 0x0001"

definition STARTF_USESHOWWINDOW :: DWORD where
  "STARTF_USESHOWWINDOW = 0x00000001"

definition SW_HIDE :: "16 word" where
  "SW_HIDE = 0"

definition SW_SHOWMINIMIZED :: "16 word" where
  "SW_SHOWMINIMIZED = 2"

definition SW_MINIMIZE :: "16 word" where
  "SW_MINIMIZE = 6"

definition SW_SHOWMINNOACTIVE :: "16 word" where
  "SW_SHOWMINNOACTIVE = 7"

definition SW_FORCEMINIMIZE :: "16 word" where
  "SW_FORCEMINIMIZE = 11"

text \<open>The \<^verbatim>\<open>wil\<close> flag helpers: a flag is set when all its bits are, clear when none is.\<close>

definition WI_IsFlagSet :: "DWORD \<Rightarrow> DWORD \<Rightarrow> bool" where
  "WI_IsFlagSet v flag = (v AND flag = flag)"

definition WI_IsFlagClear :: "DWORD \<Rightarrow> DWORD \<Rightarrow> bool" where
  "WI_IsFlagClear v flag = (v AND flag = 0)"

definition WI_SetFlag :: "DWORD \<Rightarrow> DWORD \<Rightarrow> DWORD" where
  "WI_SetFlag v flag = v OR flag"

section \<open>Data model\<close>

text \<open>
  \<^verbatim>\<open>CD_IO_OBJECT_TYPE\<close> is the object-type hint of a create request. The field is filled
  by the driver, so a value outside the four enumerators is possible; the switch of
  \<^verbatim>\<open>ConsoleCreateObject\<close> sends it to its \<^verbatim>\<open>default\<close> branch.
\<close>

datatype CD_IO_OBJECT_TYPE =
    CD_IO_OBJECT_TYPE_CURRENT_INPUT
  | CD_IO_OBJECT_TYPE_CURRENT_OUTPUT
  | CD_IO_OBJECT_TYPE_NEW_OUTPUT
  | CD_IO_OBJECT_TYPE_GENERIC
  | CD_IO_OBJECT_TYPE_UNKNOWN DWORD

datatype HandleType = Input | Output

text \<open>The session object a handle is bound to.\<close>

datatype SessionObject = InputBuffer | ActiveOutputBuffer | NewScreenBuffer

record ConsoleHandleData =
  hd_type :: HandleType
  hd_object :: SessionObject
  hd_access :: DWORD
  hd_share :: DWORD

text \<open>
  \<^verbatim>\<open>ConsoleProcessHandle\<close>: the per-client record. The two handle members are owning
  pointers (the source passes them where a \<^verbatim>\<open>std::unique_ptr<ConsoleHandleData>&\<close> is
  expected), so they name objects of the handle heap, or are null.
\<close>

record ConsoleProcessHandle =
  dwProcessId :: DWORD
  dwThreadId :: DWORD
  ulProcessGroupId :: DWORD
  fRootProcess :: bool
  pInputHandle :: "nat option"
  pOutputHandle :: "nat option"

text \<open>
  What the dispatcher does that an observer can see, in order. Objects on the heap and
  kernel handles are named by natural numbers.
\<close>

datatype event =
    EvTelemetry
  | EvLock
  | EvUnlock
  | EvShouldAttemptHandoff
  | EvCreateHandle nat
  | EvCloseHandle nat
  | EvEstablishHandoff
  | EvStartSignalThread
  | EvLogHandoffFailed
  | EvLogCaught
  | EvWaitForClient
  | EvExitProcess
  | EvAllocProcessData nat
  | EvFreeProcessData nat
  | EvNotifyConsoleApplication
  | EvAccessibilityStart
  | EvAccessibilityEnd
  | EvAllocateConsole
  | EvSetInitialized
  | EvHistoryAllocate nat
  | EvHistoryFree nat
  | EvModifyFocus bool
  | EvAllocateIoHandle nat
  | EvDestroyHandle nat
  | EvPutHandle nat
  | EvCompleteIo
  | EvTraceAttachDetach
  | EvRemoveConsole "nat option"

text \<open>
  The process-wide state: \<^verbatim>\<open>Globals\<close> with the \<^verbatim>\<open>CONSOLE_INFORMATION\<close> it holds
  (fields \<open>gci_\<close>), the command-history table, the heap of handle objects, the handles
  the driver has taken over, the kernel handles this process has open, and the trace.
\<close>

record Globals =
  gci_Flags :: DWORD
  gci_ProcessHandleList :: "(nat \<times> ConsoleProcessHandle) list"
  gci_InVtIoMode :: bool
  gci_ForegroundGranted :: "bool option"
  CommandHistory :: "(nat \<times> 16 word list) list"
  handleHeap :: "(nat \<times> ConsoleHandleData) list"
  driverHandles :: "nat list"
  launchArgs_ForceNoHandoff :: bool
  launchArgs_CreateServerHandle :: bool
  launchArgs_Headless :: bool
  handoffConsoleClsid :: "nat option"
  handoffTarget :: bool
  hInputEvent :: "nat option"
  openHandles :: "nat list"
  nextHandle :: nat
  nextAddress :: nat
  trace :: "event list"

text \<open>
  \<^verbatim>\<open>CONSOLE_API_MSG\<close>, with the members the dispatcher reads and writes: the request
  descriptor, the create-object payload, the object and process handle the driver attached
  to the request (null or a heap address), and the reply.
\<close>

record CONSOLE_API_MSG =
  Descriptor_IdHighPart :: "32 word"
  Descriptor_IdLowPart :: "32 word"
  Descriptor_Process :: ULONG_PTR
  Descriptor_Object :: ULONG_PTR
  Descriptor_Function :: "32 word"
  Descriptor_InputSize :: "32 word"
  Descriptor_OutputSize :: "32 word"
  CreateObject_ObjectType :: CD_IO_OBJECT_TYPE
  CreateObject_DesiredAccess :: DWORD
  CreateObject_ShareMode :: DWORD
  ObjectHandle :: "nat option"
  ProcessHandle :: "nat option"
  ReplyStatus :: "NTSTATUS option"
  ReplyInformation :: "ULONG_PTR option"
  Complete_Write_Size :: "nat option"

text \<open>
  What an entry point hands back: \<open>Reply\<close> is \<^verbatim>\<open>return pMessage\<close> (the caller completes
  the request), \<open>Completed\<close> is \<^verbatim>\<open>return nullptr\<close> (the request was completed inside),
  \<open>Exited\<close> is \<^verbatim>\<open>ExitProcess\<close>: the call never returns. \<open>Faulted\<close> stands for
  undefined behaviour of the C++ program: \<^verbatim>\<open>delete\<close> of an address that holds no object, or
  a read through a pointer that is null or dangling. The state it carries is the state at
  the fault; no reply and nothing about what follows is promised.
\<close>

datatype dispatch_result =
    Reply CONSOLE_API_MSG Globals
  | Completed CONSOLE_API_MSG Globals
  | Exited Globals
  | Faulted Globals

fun result_state :: "dispatch_result \<Rightarrow> Globals" where
  "result_state (Reply m g) = g"
| "result_state (Completed m g) = g"
| "result_state (Exited g) = g"
| "result_state (Faulted g) = g"

fun result_msg :: "dispatch_result \<Rightarrow> CONSOLE_API_MSG option" where
  "result_msg (Reply m g) = Some m"
| "result_msg (Completed m g) = Some m"
| "result_msg (Exited g) = None"
| "result_msg (Faulted g) = None"

fun returns :: "dispatch_result \<Rightarrow> bool" where
  "returns (Reply m g) = True"
| "returns (Completed m g) = True"
| "returns (Exited g) = False"
| "returns (Faulted g) = False"

section \<open>Primitives\<close>

definition emit :: "event \<Rightarrow> Globals \<Rightarrow> Globals" where
  "emit e g = g\<lparr>trace := trace g @ [e]\<rparr>"

definition LockConsole :: "Globals \<Rightarrow> Globals" where
  "LockConsole g = emit EvLock g"

definition UnlockConsole :: "Globals \<Rightarrow> Globals" where
  "UnlockConsole g = emit EvUnlock g"

definition SetReplyStatus :: "NTSTATUS \<Rightarrow> CONSOLE_API_MSG \<Rightarrow> CONSOLE_API_MSG" where
  "SetReplyStatus Status m = m\<lparr>ReplyStatus := Some Status\<rparr>"

definition SetReplyInformation :: "ULONG_PTR \<Rightarrow> CONSOLE_API_MSG \<Rightarrow> CONSOLE_API_MSG" where
  "SetReplyInformation n m = m\<lparr>ReplyInformation := Some n\<rparr>"

text \<open>
  \<^verbatim>\<open>AllocateIoHandle\<close> and \<^verbatim>\<open>ConsoleCreateScreenBuffer\<close> live outside this file. Their
  status is a parameter (already converted by \<^verbatim>\<open>NTSTATUS_FROM_HRESULT\<close> where the source
  converts it); on success they leave a new handle object with the requested type, access
  and share mode in the owning pointer they were given, on failure they leave it null.
\<close>

definition AllocateIoHandle ::
  "NTSTATUS \<Rightarrow> HandleType \<Rightarrow> SessionObject \<Rightarrow> DWORD \<Rightarrow> DWORD \<Rightarrow> Globals \<Rightarrow> nat option \<times> Globals" where
  "AllocateIoHandle Status ty obj access share g =
     (if NT_SUCCESS Status
      then (Some (nextAddress g),
            emit (EvAllocateIoHandle (nextAddress g))
              (g\<lparr>handleHeap := handleHeap g @
                    [(nextAddress g,
                      \<lparr>hd_type = ty, hd_object = obj, hd_access = access, hd_share = share\<rparr>)],
                  nextAddress := Suc (nextAddress g)\<rparr>))
      else (None, g))"

text \<open>
  \<^verbatim>\<open>delete\<close> of a pointer to a handle object. \<^verbatim>\<open>delete nullptr\<close> does nothing; deleting
  the address of a live handle object destroys it; deleting any other address (one no
  allocation produced, or one already deleted) is undefined behaviour, the result \<open>None\<close>.
\<close>

definition DestroyHandle :: "nat option \<Rightarrow> Globals \<Rightarrow> Globals option" where
  "DestroyHandle p g =
     (case p of
        None \<Rightarrow> Some g
      | Some h \<Rightarrow>
          if h \<in> fst ` set (handleHeap g)
          then Some (emit (EvDestroyHandle h)
                       (g\<lparr>handleHeap := filter (\<lambda>e. fst e \<noteq> h) (handleHeap g)\<rparr>))
          else None)"

section \<open>ConsoleCreateObject\<close>

text \<open>
  The outcomes of the collaborators one create request meets: the allocation on the
  current input or output object, the creation of a new screen buffer, and the delivery
  of the reply by \<^verbatim>\<open>CompleteIo\<close>. The local \<^verbatim>\<open>std::unique_ptr\<close> of line 65 is destroyed
  when the function returns, after the \<^verbatim>\<open>UnlockConsole\<close> of line 95 or 112, and deletes the
  handle object it still owns.
\<close>

record CreateEnv =
  ce_AllocateIoHandle :: NTSTATUS
  ce_CreateScreenBuffer :: NTSTATUS
  ce_CompleteIo :: HRESULT

text \<open>Lines 53 to 63: a generic request is retyped from its desired access.\<close>

definition resolveObjectType :: "CD_IO_OBJECT_TYPE \<Rightarrow> DWORD \<Rightarrow> CD_IO_OBJECT_TYPE" where
  "resolveObjectType ty access =
     (if ty = CD_IO_OBJECT_TYPE_GENERIC
      then (if access AND (GENERIC_READ OR GENERIC_WRITE) = GENERIC_READ
            then CD_IO_OBJECT_TYPE_CURRENT_INPUT
            else if access AND (GENERIC_READ OR GENERIC_WRITE) = GENERIC_WRITE
            then CD_IO_OBJECT_TYPE_CURRENT_OUTPUT
            else ty)
      else ty)"

text \<open>Lines 65 to 91: the switch; it yields the status and the local owning pointer.\<close>

definition createSwitch ::
  "CreateEnv \<Rightarrow> CD_IO_OBJECT_TYPE \<Rightarrow> DWORD \<Rightarrow> DWORD \<Rightarrow> Globals \<Rightarrow> NTSTATUS \<times> nat option \<times> Globals" where
  "createSwitch env ty access share g =
     (case ty of
        CD_IO_OBJECT_TYPE_CURRENT_INPUT \<Rightarrow>
          (let (h, g') = AllocateIoHandle (ce_AllocateIoHandle env) Input InputBuffer access share g
           in (ce_AllocateIoHandle env, h, g'))
      | CD_IO_OBJECT_TYPE_CURRENT_OUTPUT \<Rightarrow>
          (let (h, g') = AllocateIoHandle (ce_AllocateIoHandle env) Output ActiveOutputBuffer access share g
           in (ce_AllocateIoHandle env, h, g'))
      | CD_IO_OBJECT_TYPE_NEW_OUTPUT \<Rightarrow>
          (let (h, g') = AllocateIoHandle (ce_CreateScreenBuffer env) Output NewScreenBuffer access share g
           in (ce_CreateScreenBuffer env, h, g'))
      | _ \<Rightarrow> (STATUS_INVALID_PARAMETER, None, g))"

definition ConsoleCreateObject :: "CreateEnv \<Rightarrow> CONSOLE_API_MSG \<Rightarrow> Globals \<Rightarrow> dispatch_result" where
  "ConsoleCreateObject env pMessage g0 =
     (let g1 = LockConsole g0;
          ty = resolveObjectType (CreateObject_ObjectType pMessage) (CreateObject_DesiredAccess pMessage);
          m1 = pMessage\<lparr>CreateObject_ObjectType := ty\<rparr>;
          (Status, handle, g2) =
            createSwitch env ty (CreateObject_DesiredAccess m1) (CreateObject_ShareMode m1) g1
      in if \<not> NT_SUCCESS Status
         then (let g3 = UnlockConsole g2;
                   m2 = SetReplyStatus Status m1
               in case DestroyHandle handle g3 of
                    None \<Rightarrow> Faulted g3
                  | Some g4 \<Rightarrow> Reply m2 g4)
         else (let m2 = SetReplyStatus STATUS_SUCCESS m1;
                   g3 = (case handle of None \<Rightarrow> g2 | Some h \<Rightarrow> emit (EvPutHandle h) g2);
                   m3 = SetReplyInformation (case handle of None \<Rightarrow> 0 | Some h \<Rightarrow> of_nat h) m2;
                   g4 = emit EvCompleteIo g3
               in if SUCCEEDED (ce_CompleteIo env)
                  then (let g5 = g4\<lparr>driverHandles := driverHandles g4 @ (case handle of None \<Rightarrow> [] | Some h \<Rightarrow> [h])\<rparr>;
                            g6 = UnlockConsole g5
                        in Completed m3 g6)
                  else (let g5 = UnlockConsole g4
                        in case DestroyHandle handle g5 of
                             None \<Rightarrow> Faulted g5
                           | Some g6 \<Rightarrow> Completed m3 g6)))"

section \<open>ConsoleCloseObject\<close>

text \<open>
  Lines 123 to 132. The token of the request goes to \<^verbatim>\<open>delete\<close> as it is (line 127); the
  lines after it are reached when that \<^verbatim>\<open>delete\<close> is defined.
\<close>

definition ConsoleCloseObject :: "CONSOLE_API_MSG \<Rightarrow> Globals \<Rightarrow> dispatch_result" where
  "ConsoleCloseObject pMessage g0 =
     (let g1 = LockConsole g0
      in case DestroyHandle (ObjectHandle pMessage) g1 of
           None \<Rightarrow> Faulted g1
         | Some g2 \<Rightarrow>
            (let m1 = SetReplyStatus STATUS_SUCCESS pMessage;
                 g3 = UnlockConsole g2
             in Reply m1 g3))"

section \<open>ConsoleClientDisconnectRoutine\<close>

text \<open>
  \<^verbatim>\<open>CommandHistory::s_Free\<close> and \<^verbatim>\<open>FreeProcessData\<close> are collaborators: the first gives
  up the history slot of a process, the second removes the record from the process list and
  destroys it, and with it the handle objects its two owning pointers hold.
\<close>

definition s_Free :: "nat \<Rightarrow> Globals \<Rightarrow> Globals" where
  "s_Free p g = emit (EvHistoryFree p) (g\<lparr>CommandHistory := filter (\<lambda>e. fst e \<noteq> p) (CommandHistory g)\<rparr>)"

definition ownedHandles :: "ConsoleProcessHandle \<Rightarrow> nat list" where
  "ownedHandles r =
     (case pInputHandle r of None \<Rightarrow> [] | Some h \<Rightarrow> [h]) @
     (case pOutputHandle r of None \<Rightarrow> [] | Some h \<Rightarrow> [h])"

definition FreeProcessData :: "nat \<Rightarrow> Globals \<Rightarrow> Globals" where
  "FreeProcessData p g =
     emit (EvFreeProcessData p)
       (g\<lparr>gci_ProcessHandleList := filter (\<lambda>e. fst e \<noteq> p) (gci_ProcessHandleList g),
          handleHeap :=
            filter (\<lambda>e. fst e \<notin> set (concat (map (\<lambda>e. ownedHandles (snd e))
                                                (filter (\<lambda>e. fst e = p) (gci_ProcessHandleList g)))))
              (handleHeap g)\<rparr>)"

text \<open>
  Modelled from the spec: \<^verbatim>\<open>RemoveConsole\<close>, the teardown collaborator of section 4.6, is
  not in this file. It releases all resources the process owned: its history slot, its
  handles and its record. The trace shows the call as the single event
  \<open>EvRemoveConsole\<close>, with the pointer it was given, and nothing of what happens inside it;
  its result is only logged. Line 527 calls it whatever the pointer is; what it does with a
  null pointer is said neither in this file nor in the spec, and the model then shows the
  call and leaves the state as it is.
\<close>

definition RemoveConsole :: "nat option \<Rightarrow> Globals \<Rightarrow> Globals" where
  "RemoveConsole pProcessData g =
     emit (EvRemoveConsole pProcessData)
       (case pProcessData of
          None \<Rightarrow> g
        | Some p \<Rightarrow> (FreeProcessData p (s_Free p g))\<lparr>trace := trace g\<rparr>)"

record DisconnectEnv =
  de_AccessibilityNotifier :: bool
  de_RemoveConsole :: HRESULT

text \<open>A pointer to a process record can be read through when it names a record of the list.\<close>

definition liveProcess :: "nat option \<Rightarrow> Globals \<Rightarrow> bool" where
  "liveProcess pProcessData g =
     (case pProcessData of
        None \<Rightarrow> False
      | Some p \<Rightarrow> p \<in> fst ` set (gci_ProcessHandleList g))"

text \<open>
  Lines 513 to 532. There is no \<^verbatim>\<open>LockConsole\<close> and no \<^verbatim>\<open>UnlockConsole\<close> in the routine.
  With a notifier present, line 522 reads \<^verbatim>\<open>pProcessData->dwProcessId\<close> with no test of the
  pointer.
\<close>

definition ConsoleClientDisconnectRoutine ::
  "DisconnectEnv \<Rightarrow> CONSOLE_API_MSG \<Rightarrow> Globals \<Rightarrow> dispatch_result" where
  "ConsoleClientDisconnectRoutine env pMessage g0 =
     (let g1 = emit EvTelemetry g0;
          pProcessData = ProcessHandle pMessage
      in if de_AccessibilityNotifier env \<and> \<not> liveProcess pProcessData g1
         then Faulted g1
         else
           (let g2 = (if de_AccessibilityNotifier env then emit EvAccessibilityEnd g1 else g1);
                g3 = emit EvTraceAttachDetach g2;
                g4 = RemoveConsole pProcessData g3;
                g5 = (if FAILED (de_RemoveConsole env) then emit EvLogCaught g4 else g4);
                m1 = SetReplyStatus STATUS_SUCCESS pMessage
            in Reply m1 g5))"

section \<open>The handoff decision\<close>

text \<open>
  What \<^verbatim>\<open>_isInteractiveUserSession\<close> asks the system: the session id of this process
  (\<open>None\<close> when \<^verbatim>\<open>ProcessIdToSessionId\<close> fails), whether there is a window station, and
  its flags (\<open>None\<close> when \<^verbatim>\<open>GetUserObjectInformationW\<close> fails).
\<close>

record OsSession =
  os_SessionId :: "DWORD option"
  os_WindowStation :: bool
  os_UserObjectFlags :: "DWORD option"

definition isInteractiveUserSession :: "OsSession \<Rightarrow> bool" where
  "isInteractiveUserSession os =
     (if (case os_SessionId os of Some sessionId \<Rightarrow> sessionId = 0 | None \<Rightarrow> False) then False
      else if os_WindowStation os
      then (case os_UserObjectFlags os of
              Some flags \<Rightarrow> WI_IsFlagSet flags WSF_VISIBLE
            | None \<Rightarrow> True)
      else True)"

record CONSOLE_API_CONNECTINFO =
  ConsoleApp :: bool
  ProcessGroupId :: DWORD
  AppName :: "16 word list"
  AppNameLength :: nat
  ConsoleInfo_StartupFlags :: DWORD
  ConsoleInfo_ShowWindow :: "16 word"

text \<open>
  Everything outside this file that one connection request meets, in the order met: the
  compile-time feature switch, the system's answers about the session, the outcome of
  \<^verbatim>\<open>ConsoleInitializeConnectInfo\<close> with the descriptor it fills, the answer of
  \<^verbatim>\<open>ConsoleConnectionDeservesVisibleWindow\<close>, the steps of the handoff exchange, and the
  collaborators of local bring-up. A status is given as the source tests it, after
  \<^verbatim>\<open>NTSTATUS_FROM_HRESULT\<close> where the source converts.
\<close>

datatype history_outcome = HistoryAllocated | HistoryNull | HistoryThrew

record ConnectEnv =
  TIL_FEATURE_ATTEMPTHANDOFF_ENABLED :: bool
  e_OsSession :: OsSession
  e_InitializeConnectInfo :: NTSTATUS
  e_Cac :: CONSOLE_API_CONNECTINFO
  e_DeservesVisibleWindow :: bool
  e_CoInitializeEx :: HRESULT
  e_CoCreateInstance :: HRESULT
  e_GetServerHandle :: HRESULT
  e_CreatePipe :: bool
  e_DuplicateHandle :: bool
  e_EstablishHandoff :: HRESULT
  e_MakeSignalThread :: bool
  e_SignalThreadStart :: HRESULT
  e_AllocProcessData :: NTSTATUS
  e_AccessibilityNotifier :: bool
  e_AllocateConsole :: NTSTATUS
  e_HistoryAllocate :: history_outcome
  e_AllocateInputHandle :: NTSTATUS
  e_AllocateOutputHandle :: NTSTATUS
  e_CompleteIo :: HRESULT

text \<open>Lines 164 to 270, branch by branch.\<close>

definition shouldAttemptHandoff :: "ConnectEnv \<Rightarrow> Globals \<Rightarrow> CONSOLE_API_CONNECTINFO \<Rightarrow> bool" where
  "shouldAttemptHandoff env globals cac =
     (if \<not> TIL_FEATURE_ATTEMPTHANDOFF_ENABLED env then False
      else if \<not> isInteractiveUserSession (e_OsSession env) then False
      else if launchArgs_ForceNoHandoff globals then False
      else if launchArgs_CreateServerHandle globals then False
      else if WI_IsFlagSet (gci_Flags globals) CONSOLE_INITIALIZED then False
      else if \<not> ConsoleApp cac then False
      else if launchArgs_Headless globals then False
      else if handoffConsoleClsid globals = None then False
      else if handoffTarget globals then False
      else if \<not> e_DeservesVisibleWindow env then False
      else if WI_IsFlagSet (ConsoleInfo_StartupFlags cac) STARTF_USESHOWWINDOW
              \<and> ConsoleInfo_ShowWindow cac \<in>
                  {SW_HIDE, SW_SHOWMINIMIZED, SW_MINIMIZE, SW_SHOWMINNOACTIVE, SW_FORCEMINIMIZE}
      then False
      else True)"

text \<open>
  The conditions the predicate tests, in the order of the source, and what each of them
  means on the inputs. \<open>NoVisibleWindow\<close> is the test of
  \<^verbatim>\<open>ConsoleConnectionDeservesVisibleWindow\<close>, \<open>HiddenOrMinimized\<close> the switch on the show
  command.
\<close>

datatype blocking_condition =
    NonInteractive
  | HandoffDisabled
  | ForcedLocalHosting
  | AlreadyInitialized
  | AttachOnly
  | HeadlessMode
  | NoHandoffTarget
  | AlreadyHandoffTarget
  | NoVisibleWindow
  | HiddenOrMinimized

fun holds :: "blocking_condition \<Rightarrow> ConnectEnv \<Rightarrow> Globals \<Rightarrow> CONSOLE_API_CONNECTINFO \<Rightarrow> bool" where
  "holds NonInteractive env globals cac = (\<not> isInteractiveUserSession (e_OsSession env))"
| "holds HandoffDisabled env globals cac = launchArgs_ForceNoHandoff globals"
| "holds ForcedLocalHosting env globals cac = launchArgs_CreateServerHandle globals"
| "holds AlreadyInitialized env globals cac = WI_IsFlagSet (gci_Flags globals) CONSOLE_INITIALIZED"
| "holds AttachOnly env globals cac = (\<not> ConsoleApp cac)"
| "holds HeadlessMode env globals cac = launchArgs_Headless globals"
| "holds NoHandoffTarget env globals cac = (handoffConsoleClsid globals = None)"
| "holds AlreadyHandoffTarget env globals cac = handoffTarget globals"
| "holds NoVisibleWindow env globals cac = (\<not> e_DeservesVisibleWindow env)"
| "holds HiddenOrMinimized env globals cac =
     (WI_IsFlagSet (ConsoleInfo_StartupFlags cac) STARTF_USESHOWWINDOW
      \<and> ConsoleInfo_ShowWindow cac \<in>
          {SW_HIDE, SW_SHOWMINIMIZED, SW_MINIMIZE, SW_SHOWMINNOACTIVE, SW_FORCEMINIMIZE})"

definition condition_order :: "blocking_condition list" where
  "condition_order =
     [NonInteractive, HandoffDisabled, ForcedLocalHosting, AlreadyInitialized, AttachOnly,
      HeadlessMode, NoHandoffTarget, AlreadyHandoffTarget, NoVisibleWindow, HiddenOrMinimized]"

text \<open>
  The same cascade, instrumented: the conditions the predicate has tested when it returns.
  Each \<^verbatim>\<open>return false\<close> of the source ends the list at the condition that fired.
\<close>

definition conditionsTested ::
  "ConnectEnv \<Rightarrow> Globals \<Rightarrow> CONSOLE_API_CONNECTINFO \<Rightarrow> blocking_condition list" where
  "conditionsTested env globals cac =
     (if \<not> TIL_FEATURE_ATTEMPTHANDOFF_ENABLED env then []
      else if \<not> isInteractiveUserSession (e_OsSession env) then take 1 condition_order
      else if launchArgs_ForceNoHandoff globals then take 2 condition_order
      else if launchArgs_CreateServerHandle globals then take 3 condition_order
      else if WI_IsFlagSet (gci_Flags globals) CONSOLE_INITIALIZED then take 4 condition_order
      else if \<not> ConsoleApp cac then take 5 condition_order
      else if launchArgs_Headless globals then take 6 condition_order
      else if handoffConsoleClsid globals = None then take 7 condition_order
      else if handoffTarget globals then take 8 condition_order
      else if \<not> e_DeservesVisibleWindow env then take 9 condition_order
      else condition_order)"

section \<open>The handoff exchange\<close>

text \<open>
  Kernel handles. \<^verbatim>\<open>CreatePipe\<close>, \<^verbatim>\<open>DuplicateHandle\<close> and the handler's out-parameter
  open one, \<^verbatim>\<open>CloseHandle\<close> closes one. The \<^verbatim>\<open>wil::unique_*\<close> wrappers of the source
  hold a handle or nothing; \<^verbatim>\<open>reset()\<close> and the destructor close what is held, and an
  empty wrapper closes nothing.

  Modelled from the spec: \<^verbatim>\<open>GetServerHandle\<close> is not in this file. By section 4.4 the
  exchange duplicates the existing transport server handle, so a successful call opens a
  kernel handle, as \<open>OpenHandle\<close> does. The source receives it in the raw \<^verbatim>\<open>HANDLE\<close> of
  line 340, which no wrapper owns: nothing in the function closes it.
\<close>

definition OpenHandle :: "Globals \<Rightarrow> nat \<times> Globals" where
  "OpenHandle g =
     (nextHandle g,
      emit (EvCreateHandle (nextHandle g))
        (g\<lparr>openHandles := openHandles g @ [nextHandle g], nextHandle := Suc (nextHandle g)\<rparr>))"

definition CloseHandle :: "nat \<Rightarrow> Globals \<Rightarrow> Globals" where
  "CloseHandle h g = emit (EvCloseHandle h) (g\<lparr>openHandles := removeAll h (openHandles g)\<rparr>)"

definition unique_reset :: "nat option \<Rightarrow> Globals \<Rightarrow> Globals" where
  "unique_reset w g = (case w of None \<Rightarrow> g | Some h \<Rightarrow> CloseHandle h g)"

text \<open>
  Leaving the \<^verbatim>\<open>try\<close> block by an exception destroys its locals in reverse order of
  declaration: the signal thread (which owns the pipe end moved into it), \<open>clientProcess\<close>,
  \<open>ourProcess\<close>, \<open>signalPipeOurSide\<close>, \<open>signalPipeTheirSide\<close>. The handler then logs
  twice (lines 400 to 409) and does nothing more.
\<close>

definition handoffCaught ::
  "nat option \<Rightarrow> nat option \<Rightarrow> nat option \<Rightarrow> nat option \<Rightarrow> nat option \<Rightarrow> Globals \<Rightarrow> Globals" where
  "handoffCaught hostSignalThread clientProcess ourProcess signalPipeOurSide signalPipeTheirSide g =
     emit EvLogCaught (emit EvLogHandoffFailed
       (unique_reset signalPipeTheirSide
         (unique_reset signalPipeOurSide
           (unique_reset ourProcess
             (unique_reset clientProcess
               (unique_reset hostSignalThread g))))))"

datatype handoff_result = HandoffExit Globals | HandoffFailed Globals

text \<open>
  Lines 319 to 410. Each \<^verbatim>\<open>THROW_IF_*\<close> is a branch to the handler; the attach message
  built at lines 330 to 337 is a local copy of descriptor fields and changes nothing.
\<close>

definition attemptHandoff :: "ConnectEnv \<Rightarrow> Globals \<Rightarrow> handoff_result" where
  "attemptHandoff env g0 =
     (if FAILED (e_CoInitializeEx env) then HandoffFailed (handoffCaught None None None None None g0)
      else if FAILED (e_CoCreateInstance env) then HandoffFailed (handoffCaught None None None None None g0)
      else if FAILED (e_GetServerHandle env) then HandoffFailed (handoffCaught None None None None None g0)
      else
        (let (serverHandle, g1) = OpenHandle g0
         in if \<not> e_CreatePipe env then HandoffFailed (handoffCaught None None None None None g1)
            else
              (let (signalPipeOurSide, g2) = OpenHandle g1;
                   (signalPipeTheirSide, g3) = OpenHandle g2
               in if \<not> e_DuplicateHandle env
                  then HandoffFailed
                         (handoffCaught None None None (Some signalPipeOurSide) (Some signalPipeTheirSide) g3)
                  else
                    (let (ourProcess, g4) = OpenHandle g3;
                         g5 = emit EvEstablishHandoff g4
                     in if FAILED (e_EstablishHandoff env)
                        then HandoffFailed
                               (handoffCaught None None (Some ourProcess)
                                  (Some signalPipeOurSide) (Some signalPipeTheirSide) g5)
                        else
                          (let (clientProcess, g6) = OpenHandle g5;
                               g7 = unique_reset (Some signalPipeTheirSide) g6;
                               g8 = unique_reset (Some ourProcess) g7;
                               g9 = (unique_reset (hInputEvent g8) g8)\<lparr>hInputEvent := None\<rparr>
                           in if \<not> e_MakeSignalThread env
                              then HandoffFailed
                                     (handoffCaught None (Some clientProcess) None
                                        (Some signalPipeOurSide) None g9)
                              else
                                (let g10 = emit EvStartSignalThread g9
                                 in if FAILED (e_SignalThreadStart env)
                                    then HandoffFailed
                                           (handoffCaught (Some signalPipeOurSide) (Some clientProcess)
                                              None None None g10)
                                    else HandoffExit
                                           (emit EvExitProcess
                                              (emit EvWaitForClient (UnlockConsole g10)))))))))"

section \<open>Local bring-up and ConsoleHandleConnectionRequest\<close>

text \<open>
  \<^verbatim>\<open>AllocProcessData\<close> is a collaborator: on success it appends a record with the given
  ids to the process list and hands back its address.
\<close>

definition AllocProcessData ::
  "NTSTATUS \<Rightarrow> DWORD \<Rightarrow> DWORD \<Rightarrow> DWORD \<Rightarrow> Globals \<Rightarrow> nat option \<times> Globals" where
  "AllocProcessData Status pid tid gid g =
     (if NT_SUCCESS Status
      then (Some (nextAddress g),
            emit (EvAllocProcessData (nextAddress g))
              (g\<lparr>gci_ProcessHandleList := gci_ProcessHandleList g @
                    [(nextAddress g,
                      \<lparr>dwProcessId = pid, dwThreadId = tid, ulProcessGroupId = gid,
                       fRootProcess = False, pInputHandle = None, pOutputHandle = None\<rparr>)],
                  nextAddress := Suc (nextAddress g)\<rparr>))
      else (None, g))"

text \<open>Writing a member through \<^verbatim>\<open>ProcessData->\<close>.\<close>

definition updProcess ::
  "nat \<Rightarrow> (ConsoleProcessHandle \<Rightarrow> ConsoleProcessHandle) \<Rightarrow> Globals \<Rightarrow> Globals" where
  "updProcess p f g =
     g\<lparr>gci_ProcessHandleList :=
         map (\<lambda>e. if fst e = p then (fst e, f (snd e)) else e) (gci_ProcessHandleList g)\<rparr>"

text \<open>
  \<^verbatim>\<open>CommandHistory::s_Allocate\<close> is a collaborator: it binds a history slot to the process
  under the application name, or finds none and returns null (the source discards its
  value), or throws.
\<close>

definition s_Allocate :: "16 word list \<Rightarrow> nat \<Rightarrow> Globals \<Rightarrow> Globals" where
  "s_Allocate appName p g = emit (EvHistoryAllocate p) (g\<lparr>CommandHistory := CommandHistory g @ [(p, appName)]\<rparr>)"

definition sizeof_CD_CONNECTION_INFORMATION :: nat where
  "sizeof_CD_CONNECTION_INFORMATION = 24"

text \<open>
  What the body of the function leaves for the scope-exit lambda of lines 290 to 303: the
  value returned (\<open>True\<close> for \<^verbatim>\<open>pReceiveMsg\<close>, \<open>False\<close> for \<^verbatim>\<open>nullptr\<close>), the locals
  \<open>Status\<close> and \<open>ProcessData\<close>, the message and the state; or the process has exited.
\<close>

datatype body_result =
    BodyReturn bool NTSTATUS "nat option" CONSOLE_API_MSG Globals
  | BodyExit Globals

text \<open>
  Lines 413 to 436: the process record, its root flag, the start notifications. A failed
  \<^verbatim>\<open>NotifyConsoleApplication\<close> is only logged.
\<close>

definition registerProcess ::
  "ConnectEnv \<Rightarrow> CONSOLE_API_CONNECTINFO \<Rightarrow> CONSOLE_API_MSG \<Rightarrow> Globals \<Rightarrow> nat option \<times> Globals" where
  "registerProcess env Cac pReceiveMsg g0 =
     (let dwProcessId = (ucast (Descriptor_Process pReceiveMsg) :: DWORD);
          dwThreadId = (ucast (Descriptor_Object pReceiveMsg) :: DWORD);
          (ProcessData, g1) =
            AllocProcessData (e_AllocProcessData env) dwProcessId dwThreadId (ProcessGroupId Cac) g0
      in case ProcessData of
           None \<Rightarrow> (None, g1)
         | Some p \<Rightarrow>
            (let g2 = updProcess p
                        (\<lambda>r. r\<lparr>fRootProcess := WI_IsFlagClear (gci_Flags g1) CONSOLE_INITIALIZED\<rparr>) g1;
                 g3 = (if ConsoleApp Cac then emit EvNotifyConsoleApplication g2 else g2);
                 g4 = (if e_AccessibilityNotifier env then emit EvAccessibilityStart g3 else g3)
             in (Some p, g4)))"

text \<open>
  Lines 438 to 447: the session initializer, run only while \<^verbatim>\<open>CONSOLE_INITIALIZED\<close> is
  clear. The result is the value of \<open>Status\<close> after the block.
\<close>

definition initializeSession :: "ConnectEnv \<Rightarrow> NTSTATUS \<Rightarrow> Globals \<Rightarrow> NTSTATUS \<times> Globals" where
  "initializeSession env Status g =
     (if WI_IsFlagClear (gci_Flags g) CONSOLE_INITIALIZED
      then (let g1 = emit EvAllocateConsole g
            in if \<not> NT_SUCCESS (e_AllocateConsole env)
               then (e_AllocateConsole env, g1)
               else (e_AllocateConsole env,
                     emit EvSetInitialized
                       (g1\<lparr>gci_Flags := WI_SetFlag (gci_Flags g1) CONSOLE_INITIALIZED\<rparr>)))
      else (Status, g))"

text \<open>
  Lines 449 to 457: the command-history slot. The result says whether the handler of the
  \<^verbatim>\<open>catch\<close> was entered; it logs and returns from the function.
\<close>

definition associateHistory ::
  "ConnectEnv \<Rightarrow> CONSOLE_API_CONNECTINFO \<Rightarrow> nat \<Rightarrow> Globals \<Rightarrow> bool \<times> Globals" where
  "associateHistory env Cac p g =
     (case e_HistoryAllocate env of
        HistoryAllocated \<Rightarrow> (False, s_Allocate (take (AppNameLength Cac div 2) (AppName Cac)) p g)
      | HistoryNull \<Rightarrow> (False, g)
      | HistoryThrew \<Rightarrow> (True, emit EvLogCaught g))"

text \<open>Lines 459 to 485: foreground rights, then the two primary handles.\<close>

definition createPrimaryHandles :: "ConnectEnv \<Rightarrow> nat \<Rightarrow> Globals \<Rightarrow> NTSTATUS \<times> Globals" where
  "createPrimaryHandles env p g0 =
     (let inConpty = gci_InVtIoMode g0;
          hasFocus = WI_IsFlagSet (gci_Flags g0) CONSOLE_HAS_FOCUS;
          grantFG = (inConpty \<or> hasFocus);
          g1 = emit (EvModifyFocus grantFG) (g0\<lparr>gci_ForegroundGranted := Some grantFG\<rparr>);
          (hIn, g2) = AllocateIoHandle (e_AllocateInputHandle env) Input InputBuffer
                        (GENERIC_READ OR GENERIC_WRITE) (FILE_SHARE_READ OR FILE_SHARE_WRITE) g1;
          g3 = updProcess p (\<lambda>r. r\<lparr>pInputHandle := hIn\<rparr>) g2
      in if \<not> NT_SUCCESS (e_AllocateInputHandle env)
         then (e_AllocateInputHandle env, g3)
         else
           (let (hOut, g4) = AllocateIoHandle (e_AllocateOutputHandle env) Output ActiveOutputBuffer
                               (GENERIC_READ OR GENERIC_WRITE) (FILE_SHARE_READ OR FILE_SHARE_WRITE) g3;
                g5 = updProcess p (\<lambda>r. r\<lparr>pOutputHandle := hOut\<rparr>) g4
            in (e_AllocateOutputHandle env, g5)))"

text \<open>
  Lines 487 to 504: the reply and its delivery; when delivery fails, the history slot and
  the record are freed. The attach trace of line 502 follows in both cases.
\<close>

definition completeConnection ::
  "ConnectEnv \<Rightarrow> nat \<Rightarrow> CONSOLE_API_MSG \<Rightarrow> Globals \<Rightarrow> CONSOLE_API_MSG \<times> Globals" where
  "completeConnection env p pReceiveMsg g0 =
     (let m1 = SetReplyStatus STATUS_SUCCESS pReceiveMsg;
          m2 = SetReplyInformation (of_nat sizeof_CD_CONNECTION_INFORMATION) m1;
          m3 = m2\<lparr>Complete_Write_Size := Some sizeof_CD_CONNECTION_INFORMATION\<rparr>;
          g1 = emit EvCompleteIo g0;
          g2 = (if FAILED (e_CompleteIo env) then FreeProcessData p (s_Free p g1) else g1)
      in (m3, emit EvTraceAttachDetach g2))"

text \<open>Lines 413 to 504, with every early return.\<close>

definition localBringUp ::
  "ConnectEnv \<Rightarrow> CONSOLE_API_CONNECTINFO \<Rightarrow> CONSOLE_API_MSG \<Rightarrow> Globals \<Rightarrow> body_result" where
  "localBringUp env Cac pReceiveMsg g0 =
     (case registerProcess env Cac pReceiveMsg g0 of
        (None, g1) \<Rightarrow> BodyReturn True (e_AllocProcessData env) None pReceiveMsg g1
      | (Some p, g1) \<Rightarrow>
         (case initializeSession env (e_AllocProcessData env) g1 of
            (Status2, g2) \<Rightarrow>
              if \<not> NT_SUCCESS Status2 then BodyReturn True Status2 (Some p) pReceiveMsg g2
              else
                (case associateHistory env Cac p g2 of
                   (threw, g3) \<Rightarrow>
                     if threw then BodyReturn True Status2 (Some p) pReceiveMsg g3
                     else
                       (case createPrimaryHandles env p g3 of
                          (Status4, g4) \<Rightarrow>
                            if \<not> NT_SUCCESS Status4 then BodyReturn True Status4 (Some p) pReceiveMsg g4
                            else
                              (case completeConnection env p pReceiveMsg g4 of
                                 (m5, g5) \<Rightarrow> BodyReturn False Status4 (Some p) m5 g5)))))"

text \<open>Lines 290 to 303: the scope-exit lambda, run on every return of the function.\<close>

definition cleanup ::
  "NTSTATUS \<Rightarrow> nat option \<Rightarrow> CONSOLE_API_MSG \<Rightarrow> Globals \<Rightarrow> CONSOLE_API_MSG \<times> Globals" where
  "cleanup Status ProcessData pReceiveMsg g =
     (if \<not> NT_SUCCESS Status
      then (SetReplyStatus Status pReceiveMsg,
            UnlockConsole
              (case ProcessData of
                 None \<Rightarrow> g
               | Some p \<Rightarrow> FreeProcessData p (s_Free p g)))
      else (pReceiveMsg, UnlockConsole g))"

text \<open>Lines 305 to 411: the connect descriptor, the decision, the exchange.\<close>

definition connectionBody :: "ConnectEnv \<Rightarrow> CONSOLE_API_MSG \<Rightarrow> Globals \<Rightarrow> body_result" where
  "connectionBody env pReceiveMsg g0 =
     (if \<not> NT_SUCCESS (e_InitializeConnectInfo env)
      then BodyReturn True (e_InitializeConnectInfo env) None pReceiveMsg g0
      else
        (let g1 = emit EvShouldAttemptHandoff g0
         in if shouldAttemptHandoff env g1 (e_Cac env)
            then (case attemptHandoff env g1 of
                    HandoffExit g2 \<Rightarrow> BodyExit g2
                  | HandoffFailed g2 \<Rightarrow> localBringUp env (e_Cac env) pReceiveMsg g2)
            else localBringUp env (e_Cac env) pReceiveMsg g1))"

definition ConsoleHandleConnectionRequest ::
  "ConnectEnv \<Rightarrow> CONSOLE_API_MSG \<Rightarrow> Globals \<Rightarrow> dispatch_result" where
  "ConsoleHandleConnectionRequest env pReceiveMsg g0 =
     (let g1 = LockConsole (emit EvTelemetry g0)
      in case connectionBody env pReceiveMsg g1 of
           BodyExit g2 \<Rightarrow> Exited g2
         | BodyReturn ret Status ProcessData m g2 \<Rightarrow>
            (let (m', g3) = cleanup Status ProcessData m g2
             in if ret then Reply m' g3 else Completed m' g3))"

section \<open>Notions used to state the properties\<close>

text \<open>The events one call has added to the trace.\<close>

definition newEvents :: "Globals \<Rightarrow> dispatch_result \<Rightarrow> event list" where
  "newEvents g r = drop (length (trace g)) (trace (result_state r))"

text \<open>
  Fresh addresses are fresh: every handle object on the heap, and every handle the driver
  holds, lies below the next address to be handed out.
\<close>

definition heap_wf :: "Globals \<Rightarrow> bool" where
  "heap_wf g =
     (list_all (\<lambda>e. fst e < nextAddress g) (handleHeap g) \<and>
      list_all (\<lambda>h. h < nextAddress g) (driverHandles g))"

text \<open>The create request reaches an allocation, and the allocation succeeds.\<close>

definition allocationSucceeds :: "CreateEnv \<Rightarrow> CONSOLE_API_MSG \<Rightarrow> bool" where
  "allocationSucceeds env m =
     (case resolveObjectType (CreateObject_ObjectType m) (CreateObject_DesiredAccess m) of
        CD_IO_OBJECT_TYPE_CURRENT_INPUT \<Rightarrow> NT_SUCCESS (ce_AllocateIoHandle env)
      | CD_IO_OBJECT_TYPE_CURRENT_OUTPUT \<Rightarrow> NT_SUCCESS (ce_AllocateIoHandle env)
      | CD_IO_OBJECT_TYPE_NEW_OUTPUT \<Rightarrow> NT_SUCCESS (ce_CreateScreenBuffer env)
      | _ \<Rightarrow> False)"

subsection \<open>The lock\<close>

text \<open>
  The depth of the lock after a run of events, counted from its start; which events change
  state that the lock protects (the process list, the history table, the handle heap and
  the session flags); and the discipline asked of an entry point: the lock is taken, and
  nothing the lock protects is changed before it is.
\<close>

definition lockDepth :: "event list \<Rightarrow> int" where
  "lockDepth es = int (count_list es EvLock) - int (count_list es EvUnlock)"

fun mutatesSession :: "event \<Rightarrow> bool" where
  "mutatesSession (EvAllocProcessData p) = True"
| "mutatesSession (EvFreeProcessData p) = True"
| "mutatesSession EvAllocateConsole = True"
| "mutatesSession EvSetInitialized = True"
| "mutatesSession (EvHistoryAllocate p) = True"
| "mutatesSession (EvHistoryFree p) = True"
| "mutatesSession (EvModifyFocus b) = True"
| "mutatesSession (EvAllocateIoHandle h) = True"
| "mutatesSession (EvDestroyHandle h) = True"
| "mutatesSession (EvRemoveConsole p) = True"
| "mutatesSession e = False"

definition lockedBeforeMutation :: "event list \<Rightarrow> bool" where
  "lockedBeforeMutation es =
     (EvLock \<in> set es \<and> list_all (\<lambda>e. \<not> mutatesSession e) (takeWhile (\<lambda>e. e \<noteq> EvLock) es))"

text \<open>
  The stronger discipline: walking through a run of events that starts at depth \<open>d\<close>, every
  event that changes protected state happens while the lock is held.
\<close>

fun lockDelta :: "event \<Rightarrow> int" where
  "lockDelta EvLock = 1"
| "lockDelta EvUnlock = - 1"
| "lockDelta e = 0"

fun underLock :: "int \<Rightarrow> event list \<Rightarrow> bool" where
  "underLock d [] = True"
| "underLock d (e # es) =
     ((if mutatesSession e then 0 < d else True) \<and> underLock (d + lockDelta e) es)"

text \<open>
  The token of a close request can be deleted: it is null or the address of a live handle
  object.
\<close>

definition closable :: "nat option \<Rightarrow> Globals \<Rightarrow> bool" where
  "closable p g = (case p of None \<Rightarrow> True | Some h \<Rightarrow> h \<in> fst ` set (handleHeap g))"

fun destroyEvents :: "nat option \<Rightarrow> event list" where
  "destroyEvents None = []"
| "destroyEvents (Some h) = [EvDestroyHandle h]"

subsection \<open>The events of a connection request\<close>

text \<open>
  Projections of the intermediate results.
\<close>

fun body_state :: "body_result \<Rightarrow> Globals" where
  "body_state (BodyReturn ret st p m g) = g"
| "body_state (BodyExit g) = g"

fun body_exits :: "body_result \<Rightarrow> bool" where
  "body_exits (BodyReturn ret st p m g) = False"
| "body_exits (BodyExit g) = True"

fun body_ret :: "body_result \<Rightarrow> bool" where
  "body_ret (BodyReturn ret st p m g) = ret"
| "body_ret (BodyExit g) = False"

fun body_status :: "body_result \<Rightarrow> NTSTATUS" where
  "body_status (BodyReturn ret st p m g) = st"
| "body_status (BodyExit g) = 0"

fun body_process :: "body_result \<Rightarrow> nat option" where
  "body_process (BodyReturn ret st p m g) = p"
| "body_process (BodyExit g) = None"

fun body_msg :: "body_result \<Rightarrow> CONSOLE_API_MSG option" where
  "body_msg (BodyReturn ret st p m g) = Some m"
| "body_msg (BodyExit g) = None"

fun handoff_state :: "handoff_result \<Rightarrow> Globals" where
  "handoff_state (HandoffExit g) = g"
| "handoff_state (HandoffFailed g) = g"

fun handoff_exited :: "handoff_result \<Rightarrow> bool" where
  "handoff_exited (HandoffExit g) = True"
| "handoff_exited (HandoffFailed g) = False"

text \<open>
  The events of each block of local bring-up, as lists, in terms of what the block reads:
  the outcomes of the collaborators, the session flags, and the next free address.
\<close>

definition registerEvents :: "ConnectEnv \<Rightarrow> CONSOLE_API_CONNECTINFO \<Rightarrow> nat \<Rightarrow> event list" where
  "registerEvents env Cac a =
     (if NT_SUCCESS (e_AllocProcessData env)
      then EvAllocProcessData a #
           (if ConsoleApp Cac then [EvNotifyConsoleApplication] else []) @
           (if e_AccessibilityNotifier env then [EvAccessibilityStart] else [])
      else [])"

definition initEvents :: "ConnectEnv \<Rightarrow> DWORD \<Rightarrow> event list" where
  "initEvents env flags =
     (if WI_IsFlagClear flags CONSOLE_INITIALIZED
      then EvAllocateConsole # (if NT_SUCCESS (e_AllocateConsole env) then [EvSetInitialized] else [])
      else [])"

definition historyEvents :: "ConnectEnv \<Rightarrow> nat \<Rightarrow> event list" where
  "historyEvents env p =
     (case e_HistoryAllocate env of
        HistoryAllocated \<Rightarrow> [EvHistoryAllocate p]
      | HistoryNull \<Rightarrow> []
      | HistoryThrew \<Rightarrow> [EvLogCaught])"

definition handleEvents :: "ConnectEnv \<Rightarrow> bool \<Rightarrow> nat \<Rightarrow> event list" where
  "handleEvents env grantFG a =
     EvModifyFocus grantFG #
     (if NT_SUCCESS (e_AllocateInputHandle env)
      then EvAllocateIoHandle a #
           (if NT_SUCCESS (e_AllocateOutputHandle env) then [EvAllocateIoHandle (Suc a)] else [])
      else [])"

definition completeEvents :: "ConnectEnv \<Rightarrow> nat \<Rightarrow> event list" where
  "completeEvents env p =
     EvCompleteIo # (if FAILED (e_CompleteIo env) then [EvHistoryFree p, EvFreeProcessData p] else []) @
     [EvTraceAttachDetach]"

definition flagsAfterInit :: "ConnectEnv \<Rightarrow> DWORD \<Rightarrow> DWORD" where
  "flagsAfterInit env flags =
     (if WI_IsFlagClear flags CONSOLE_INITIALIZED \<and> NT_SUCCESS (e_AllocateConsole env)
      then WI_SetFlag flags CONSOLE_INITIALIZED else flags)"

definition bringUpEvents ::
  "ConnectEnv \<Rightarrow> CONSOLE_API_CONNECTINFO \<Rightarrow> DWORD \<Rightarrow> bool \<Rightarrow> nat \<Rightarrow> event list" where
  "bringUpEvents env Cac flags inVt a =
     (if \<not> NT_SUCCESS (e_AllocProcessData env) then []
      else registerEvents env Cac a @ initEvents env flags @
        (if WI_IsFlagClear flags CONSOLE_INITIALIZED \<and> \<not> NT_SUCCESS (e_AllocateConsole env) then []
         else historyEvents env a @
           (if e_HistoryAllocate env = HistoryThrew then []
            else handleEvents env (inVt \<or> WI_IsFlagSet (flagsAfterInit env flags) CONSOLE_HAS_FOCUS) (Suc a) @
              (if NT_SUCCESS (e_AllocateInputHandle env) \<and> NT_SUCCESS (e_AllocateOutputHandle env)
               then completeEvents env a else []))))"

text \<open>
  Local bring-up reaches the reply when every collaborator before it succeeds; otherwise
  it returns early, with \<open>bringUpStatus\<close> in the local \<open>Status\<close>.
\<close>

definition bringUpCompletes :: "ConnectEnv \<Rightarrow> DWORD \<Rightarrow> bool" where
  "bringUpCompletes env flags =
     (NT_SUCCESS (e_AllocProcessData env) \<and>
      (WI_IsFlagClear flags CONSOLE_INITIALIZED \<longrightarrow> NT_SUCCESS (e_AllocateConsole env)) \<and>
      e_HistoryAllocate env \<noteq> HistoryThrew \<and>
      NT_SUCCESS (e_AllocateInputHandle env) \<and> NT_SUCCESS (e_AllocateOutputHandle env))"

definition bringUpStatus :: "ConnectEnv \<Rightarrow> DWORD \<Rightarrow> NTSTATUS" where
  "bringUpStatus env flags =
     (if \<not> NT_SUCCESS (e_AllocProcessData env) then e_AllocProcessData env
      else if WI_IsFlagClear flags CONSOLE_INITIALIZED \<and> \<not> NT_SUCCESS (e_AllocateConsole env)
      then e_AllocateConsole env
      else if e_HistoryAllocate env = HistoryThrew
      then (if WI_IsFlagClear flags CONSOLE_INITIALIZED then e_AllocateConsole env else e_AllocProcessData env)
      else if \<not> NT_SUCCESS (e_AllocateInputHandle env) then e_AllocateInputHandle env
      else e_AllocateOutputHandle env)"

text \<open>
  The events of the scope-exit lambda, of the exception handler, and of the handoff
  exchange from kernel handle \<open>n\<close> on: the duplicate of the server handle is opened
  first, when the exchange gets that far, then come the events from the pipe on.
  \<open>handoffExits\<close> says that every step of the exchange succeeded, so that the process
  exits.
\<close>

fun resetEvents :: "nat option \<Rightarrow> event list" where
  "resetEvents None = []"
| "resetEvents (Some h) = [EvCloseHandle h]"

fun cleanupEvents :: "NTSTATUS \<Rightarrow> nat option \<Rightarrow> event list" where
  "cleanupEvents Status None = [EvUnlock]"
| "cleanupEvents Status (Some p) =
     (if NT_SUCCESS Status then [EvUnlock] else [EvHistoryFree p, EvFreeProcessData p, EvUnlock])"

definition caughtEvents :: "event list" where
  "caughtEvents = [EvLogHandoffFailed, EvLogCaught]"

definition handoffExits :: "ConnectEnv \<Rightarrow> bool" where
  "handoffExits env =
     (\<not> FAILED (e_CoInitializeEx env) \<and> \<not> FAILED (e_CoCreateInstance env) \<and>
      \<not> FAILED (e_GetServerHandle env) \<and> e_CreatePipe env \<and> e_DuplicateHandle env \<and>
      \<not> FAILED (e_EstablishHandoff env) \<and> e_MakeSignalThread env \<and> \<not> FAILED (e_SignalThreadStart env))"

definition serverHandleOpened :: "ConnectEnv \<Rightarrow> bool" where
  "serverHandleOpened env =
     (\<not> FAILED (e_CoInitializeEx env) \<and> \<not> FAILED (e_CoCreateInstance env) \<and>
      \<not> FAILED (e_GetServerHandle env))"

definition pipeEvents :: "ConnectEnv \<Rightarrow> nat \<Rightarrow> nat option \<Rightarrow> event list" where
  "pipeEvents env n hIn =
     (if \<not> e_CreatePipe env then caughtEvents
      else [EvCreateHandle n, EvCreateHandle (Suc n)] @
        (if \<not> e_DuplicateHandle env
         then [EvCloseHandle n, EvCloseHandle (Suc n)] @ caughtEvents
         else [EvCreateHandle (Suc (Suc n)), EvEstablishHandoff] @
           (if FAILED (e_EstablishHandoff env)
            then [EvCloseHandle (Suc (Suc n)), EvCloseHandle n, EvCloseHandle (Suc n)] @ caughtEvents
            else [EvCreateHandle (Suc (Suc (Suc n))), EvCloseHandle (Suc n), EvCloseHandle (Suc (Suc n))] @
              resetEvents hIn @
              (if \<not> e_MakeSignalThread env
               then [EvCloseHandle (Suc (Suc (Suc n))), EvCloseHandle n] @ caughtEvents
               else EvStartSignalThread #
                 (if FAILED (e_SignalThreadStart env)
                  then [EvCloseHandle n, EvCloseHandle (Suc (Suc (Suc n)))] @ caughtEvents
                  else [EvUnlock, EvWaitForClient, EvExitProcess])))))"

definition handoffEvents :: "ConnectEnv \<Rightarrow> nat \<Rightarrow> nat option \<Rightarrow> event list" where
  "handoffEvents env n hIn =
     (if serverHandleOpened env then EvCreateHandle n # pipeEvents env (Suc n) hIn else caughtEvents)"

definition localEvents :: "ConnectEnv \<Rightarrow> Globals \<Rightarrow> event list" where
  "localEvents env g =
     bringUpEvents env (e_Cac env) (gci_Flags g) (gci_InVtIoMode g) (nextAddress g) @
     cleanupEvents (bringUpStatus env (gci_Flags g))
       (if NT_SUCCESS (e_AllocProcessData env) then Some (nextAddress g) else None)"

definition connectionEvents :: "ConnectEnv \<Rightarrow> Globals \<Rightarrow> event list" where
  "connectionEvents env g =
     EvTelemetry # EvLock #
     (if \<not> NT_SUCCESS (e_InitializeConnectInfo env) then [EvUnlock]
      else EvShouldAttemptHandoff #
        (if shouldAttemptHandoff env g (e_Cac env)
         then handoffEvents env (nextHandle g) (hInputEvent g) @
              (if handoffExits env then [] else localEvents env g)
         else localEvents env g))"

subsection \<open>Serving requests one after the other\<close>

text \<open>
  The four entry points as one dispatcher, and a server that takes the requests of a list in
  order until the list ends or the process exits.
\<close>

datatype request =
    CreateObjectRequest CreateEnv CONSOLE_API_MSG
  | CloseObjectRequest CONSOLE_API_MSG
  | ConnectionRequest ConnectEnv CONSOLE_API_MSG
  | ClientDisconnect DisconnectEnv CONSOLE_API_MSG

fun dispatch :: "request \<Rightarrow> Globals \<Rightarrow> dispatch_result" where
  "dispatch (CreateObjectRequest env m) g = ConsoleCreateObject env m g"
| "dispatch (CloseObjectRequest m) g = ConsoleCloseObject m g"
| "dispatch (ConnectionRequest env m) g = ConsoleHandleConnectionRequest env m g"
| "dispatch (ClientDisconnect env m) g = ConsoleClientDisconnectRoutine env m g"

fun serve :: "request list \<Rightarrow> Globals \<Rightarrow> Globals" where
  "serve [] g = g"
| "serve (r # rs) g =
     (if returns (dispatch r g) then serve rs (result_state (dispatch r g))
      else result_state (dispatch r g))"

definition servedEvents :: "request list \<Rightarrow> Globals \<Rightarrow> event list" where
  "servedEvents rs g = drop (length (trace g)) (trace (serve rs g))"

definition initialized :: "Globals \<Rightarrow> bool" where
  "initialized g = WI_IsFlagSet (gci_Flags g) CONSOLE_INITIALIZED"

subsection \<open>States and outcomes of a connection\<close>

text \<open>
  Fresh addresses are fresh for the process list, the history table and the handle heap.
  \<open>newProcess\<close> is the record a completed connection leaves, \<open>primaryHandles\<close> its two
  handle objects, \<open>historySlot\<close> its history entry, \<open>successReply\<close> the message it
  delivers.
\<close>

definition addr_wf :: "Globals \<Rightarrow> bool" where
  "addr_wf g =
     (list_all (\<lambda>e. fst e < nextAddress g) (gci_ProcessHandleList g) \<and>
      list_all (\<lambda>e. fst e < nextAddress g) (CommandHistory g) \<and>
      list_all (\<lambda>e. fst e < nextAddress g) (handleHeap g))"

definition newProcess :: "ConnectEnv \<Rightarrow> CONSOLE_API_MSG \<Rightarrow> Globals \<Rightarrow> ConsoleProcessHandle" where
  "newProcess env m g =
     \<lparr>dwProcessId = ucast (Descriptor_Process m), dwThreadId = ucast (Descriptor_Object m),
      ulProcessGroupId = ProcessGroupId (e_Cac env),
      fRootProcess = WI_IsFlagClear (gci_Flags g) CONSOLE_INITIALIZED,
      pInputHandle = Some (Suc (nextAddress g)), pOutputHandle = Some (Suc (Suc (nextAddress g)))\<rparr>"

definition primaryHandles :: "nat \<Rightarrow> (nat \<times> ConsoleHandleData) list" where
  "primaryHandles a =
     [(Suc a, \<lparr>hd_type = Input, hd_object = InputBuffer,
               hd_access = GENERIC_READ OR GENERIC_WRITE, hd_share = FILE_SHARE_READ OR FILE_SHARE_WRITE\<rparr>),
      (Suc (Suc a), \<lparr>hd_type = Output, hd_object = ActiveOutputBuffer,
               hd_access = GENERIC_READ OR GENERIC_WRITE, hd_share = FILE_SHARE_READ OR FILE_SHARE_WRITE\<rparr>)]"

definition historySlot :: "ConnectEnv \<Rightarrow> nat \<Rightarrow> (nat \<times> 16 word list) list" where
  "historySlot env a =
     (if e_HistoryAllocate env = HistoryAllocated
      then [(a, take (AppNameLength (e_Cac env) div 2) (AppName (e_Cac env)))] else [])"

definition successReply :: "CONSOLE_API_MSG \<Rightarrow> CONSOLE_API_MSG" where
  "successReply m =
     m\<lparr>ReplyStatus := Some STATUS_SUCCESS,
       ReplyInformation := Some (of_nat sizeof_CD_CONNECTION_INFORMATION),
       Complete_Write_Size := Some sizeof_CD_CONNECTION_INFORMATION\<rparr>"

text \<open>
  \<open>bringUpStart\<close> is the state in which local bring-up begins: after the lock and the
  decision, and after the handoff exchange when the decision was to attempt it. A request is
  served locally when its descriptor is valid and the process does not exit in a handoff.
\<close>

definition bringUpStart :: "ConnectEnv \<Rightarrow> Globals \<Rightarrow> Globals" where
  "bringUpStart env g =
     (let g1 = emit EvShouldAttemptHandoff (LockConsole (emit EvTelemetry g))
      in if shouldAttemptHandoff env g (e_Cac env) then handoff_state (attemptHandoff env g1) else g1)"

definition servedLocally :: "ConnectEnv \<Rightarrow> Globals \<Rightarrow> bool" where
  "servedLocally env g =
     (NT_SUCCESS (e_InitializeConnectInfo env) \<and>
      \<not> (shouldAttemptHandoff env g (e_Cac env) \<and> handoffExits env))"

text \<open>
  A request runs the session initializer when it is a connection request served locally,
  on a session not yet initialized, whose process record could be allocated; it is a
  successfully initializing connection when \<^verbatim>\<open>ConsoleAllocateConsole\<close> then succeeds.
\<close>

fun runsInitializer :: "request \<Rightarrow> Globals \<Rightarrow> bool" where
  "runsInitializer (ConnectionRequest env m) g =
     (\<not> initialized g \<and> servedLocally env g \<and> NT_SUCCESS (e_AllocProcessData env))"
| "runsInitializer (CreateObjectRequest env m) g = False"
| "runsInitializer (CloseObjectRequest m) g = False"
| "runsInitializer (ClientDisconnect env m) g = False"

fun initializes :: "request \<Rightarrow> Globals \<Rightarrow> bool" where
  "initializes (ConnectionRequest env m) g =
     (runsInitializer (ConnectionRequest env m) g \<and> NT_SUCCESS (e_AllocateConsole env))"
| "initializes (CreateObjectRequest env m) g = False"
| "initializes (CloseObjectRequest m) g = False"
| "initializes (ClientDisconnect env m) g = False"

text \<open>The number of successfully initializing connections among the requests served.\<close>

fun initializingSteps :: "request list \<Rightarrow> Globals \<Rightarrow> nat" where
  "initializingSteps [] g = 0"
| "initializingSteps (r # rs) g =
     (if initializes r g then 1 else 0) +
     (if returns (dispatch r g) then initializingSteps rs (result_state (dispatch r g)) else 0)"

text \<open>
  The events that free a history slot or a process record; a session nobody has connected
  to.
\<close>

fun isRollback :: "event \<Rightarrow> bool" where
  "isRollback (EvHistoryFree p) = True"
| "isRollback (EvFreeProcessData p) = True"
| "isRollback e = False"

definition freshState :: "Globals \<Rightarrow> bool" where
  "freshState g =
     (WI_IsFlagClear (gci_Flags g) CONSOLE_INITIALIZED \<and> gci_ProcessHandleList g = [] \<and>
      handleHeap g = [] \<and> CommandHistory g = [])"

subsection \<open>The handoff exchange\<close>


definition exchangeFails :: "ConnectEnv \<Rightarrow> bool" where
  "exchangeFails env =
     (FAILED (e_CoInitializeEx env) \<or> FAILED (e_CoCreateInstance env) \<or>
      FAILED (e_GetServerHandle env) \<or> \<not> e_CreatePipe env \<or> \<not> e_DuplicateHandle env \<or>
      FAILED (e_EstablishHandoff env))"




subsection \<open>Example inputs\<close>

text \<open>
  A session nobody has connected to yet: no flag set, no process, no handle; the input
  event is kernel handle 0.
\<close>

definition freshSession :: Globals where
  "freshSession =
     \<lparr>gci_Flags = 0, gci_ProcessHandleList = [], gci_InVtIoMode = False,
      gci_ForegroundGranted = None, CommandHistory = [], handleHeap = [], driverHandles = [],
      launchArgs_ForceNoHandoff = False, launchArgs_CreateServerHandle = False,
      launchArgs_Headless = False, handoffConsoleClsid = None, handoffTarget = False,
      hInputEvent = Some 0, openHandles = [0], nextHandle = 1, nextAddress = 0, trace = []\<rparr>"

text \<open>A request from process 100, thread 7, with nothing else filled in.\<close>

definition exampleMsg :: CONSOLE_API_MSG where
  "exampleMsg =
     \<lparr>Descriptor_IdHighPart = 0, Descriptor_IdLowPart = 1, Descriptor_Process = 100,
      Descriptor_Object = 7, Descriptor_Function = 0, Descriptor_InputSize = 0,
      Descriptor_OutputSize = 0, CreateObject_ObjectType = CD_IO_OBJECT_TYPE_GENERIC,
      CreateObject_DesiredAccess = GENERIC_READ, CreateObject_ShareMode = FILE_SHARE_READ,
      ObjectHandle = None, ProcessHandle = None, ReplyStatus = None, ReplyInformation = None,
      Complete_Write_Size = None\<rparr>"

definition createOk :: CreateEnv where
  "createOk = \<lparr>ce_AllocateIoHandle = STATUS_SUCCESS, ce_CreateScreenBuffer = STATUS_SUCCESS,
               ce_CompleteIo = S_OK\<rparr>"

definition createUndelivered :: CreateEnv where
  "createUndelivered = createOk\<lparr>ce_CompleteIo := E_FAIL\<rparr>"

text \<open>
  An interactive session, the connect descriptor of \<^verbatim>\<open>cmd.exe\<close> (a console application
  with no show-window request), and a world in which every collaborator succeeds.
\<close>

definition interactiveOs :: OsSession where
  "interactiveOs = \<lparr>os_SessionId = Some 1, os_WindowStation = True, os_UserObjectFlags = Some WSF_VISIBLE\<rparr>"

definition exampleCac :: CONSOLE_API_CONNECTINFO where
  "exampleCac =
     \<lparr>ConsoleApp = True, ProcessGroupId = 100,
      AppName = [0x63, 0x6D, 0x64, 0x2E, 0x65, 0x78, 0x65], AppNameLength = 14,
      ConsoleInfo_StartupFlags = 0, ConsoleInfo_ShowWindow = 1\<rparr>"

definition connectOk :: ConnectEnv where
  "connectOk =
     \<lparr>TIL_FEATURE_ATTEMPTHANDOFF_ENABLED = True, e_OsSession = interactiveOs,
      e_InitializeConnectInfo = STATUS_SUCCESS, e_Cac = exampleCac, e_DeservesVisibleWindow = True,
      e_CoInitializeEx = S_OK, e_CoCreateInstance = S_OK, e_GetServerHandle = S_OK,
      e_CreatePipe = True, e_DuplicateHandle = True, e_EstablishHandoff = S_OK,
      e_MakeSignalThread = True, e_SignalThreadStart = S_OK,
      e_AllocProcessData = STATUS_SUCCESS, e_AccessibilityNotifier = True,
      e_AllocateConsole = STATUS_SUCCESS, e_HistoryAllocate = HistoryAllocated,
      e_AllocateInputHandle = STATUS_SUCCESS, e_AllocateOutputHandle = STATUS_SUCCESS,
      e_CompleteIo = S_OK\<rparr>"

text \<open>
  A session with a registered handoff target; worlds in which the handler refuses the
  handoff, the signal listener does not start, the history allocation throws, or the reply
  is not delivered.
\<close>

definition handoffSession :: Globals where
  "handoffSession = freshSession\<lparr>handoffConsoleClsid := Some 1\<rparr>"

definition handoffRefused :: ConnectEnv where
  "handoffRefused = connectOk\<lparr>e_EstablishHandoff := E_FAIL\<rparr>"

definition listenerFails :: ConnectEnv where
  "listenerFails = connectOk\<lparr>e_SignalThreadStart := E_FAIL\<rparr>"

definition historyThrows :: ConnectEnv where
  "historyThrows = connectOk\<lparr>e_HistoryAllocate := HistoryThrew\<rparr>"

definition replyUndelivered :: ConnectEnv where
  "replyUndelivered = connectOk\<lparr>e_CompleteIo := E_FAIL\<rparr>"

text \<open>
  An initialized session with one root process connected, and the request and world of its
  disconnect.
\<close>

definition connectedSession :: Globals where
  "connectedSession =
     freshSession\<lparr>gci_Flags := CONSOLE_INITIALIZED,
       gci_ProcessHandleList :=
         [(0, \<lparr>dwProcessId = 100, dwThreadId = 7, ulProcessGroupId = 100, fRootProcess = True,
               pInputHandle = Some 1, pOutputHandle = Some 2\<rparr>)],
       CommandHistory := [(0, [0x63, 0x6D, 0x64, 0x2E, 0x65, 0x78, 0x65])],
       handleHeap := primaryHandles 0, nextAddress := 3\<rparr>"

definition disconnectMsg :: CONSOLE_API_MSG where
  "disconnectMsg = exampleMsg\<lparr>ProcessHandle := Some 0\<rparr>"

definition disconnectOk :: DisconnectEnv where
  "disconnectOk = \<lparr>de_AccessibilityNotifier = True, de_RemoveConsole = S_OK\<rparr>"

text \<open>
  A session in which one create request has left handle object 0 with the driver; the
  request to close that handle, and a close request whose token is address 5, where no
  handle object ever was. A world in which the session initializer fails.
\<close>

definition oneHandleSession :: Globals where
  "oneHandleSession =
     freshSession\<lparr>handleHeap := [(0, \<lparr>hd_type = Input, hd_object = InputBuffer,
                                          hd_access = GENERIC_READ, hd_share = FILE_SHARE_READ\<rparr>)],
                   driverHandles := [0], nextAddress := 1\<rparr>"

definition closeMsg :: CONSOLE_API_MSG where
  "closeMsg = exampleMsg\<lparr>ObjectHandle := Some 0\<rparr>"

definition strayCloseMsg :: CONSOLE_API_MSG where
  "strayCloseMsg = exampleMsg\<lparr>ObjectHandle := Some 5\<rparr>"

definition initializerFails :: ConnectEnv where
  "initializerFails = connectOk\<lparr>e_AllocateConsole := STATUS_NO_MEMORY\<rparr>"

section \<open>Properties\<close>

lemmas status_defs =
  NT_SUCCESS_def SUCCEEDED_def FAILED_def STATUS_SUCCESS_def STATUS_INVALID_PARAMETER_def
  STATUS_NO_MEMORY_def S_OK_def E_FAIL_def

lemmas prim_defs =
  emit_def LockConsole_def UnlockConsole_def SetReplyStatus_def SetReplyInformation_def
  AllocateIoHandle_def DestroyHandle_def s_Free_def FreeProcessData_def OpenHandle_def
  CloseHandle_def unique_reset_def AllocProcessData_def updProcess_def s_Allocate_def
  handoffCaught_def

lemmas example_defs = interactiveOs_def exampleCac_def connectOk_def handoffSession_def
  handoffRefused_def listenerFails_def historyThrows_def replyUndelivered_def connectedSession_def
  disconnectMsg_def disconnectOk_def freshSession_def exampleMsg_def createOk_def createUndelivered_def
  oneHandleSession_def closeMsg_def strayCloseMsg_def initializerFails_def

lemmas flag_defs = WI_IsFlagSet_def WI_IsFlagClear_def WI_SetFlag_def CONSOLE_INITIALIZED_def
  CONSOLE_HAS_FOCUS_def WSF_VISIBLE_def STARTF_USESHOWWINDOW_def
  SW_HIDE_def SW_SHOWMINIMIZED_def SW_MINIMIZE_def SW_SHOWMINNOACTIVE_def SW_FORCEMINIMIZE_def

lemmas handoff_event_defs = handoffEvents_def pipeEvents_def serverHandleOpened_def caughtEvents_def

lemma invalid_parameter_fails: "\<not> NT_SUCCESS STATUS_INVALID_PARAMETER"
  by (simp add: status_defs)

lemma FAILED_iff: "FAILED hr = (\<not> SUCCEEDED hr)"
  by (auto simp add: FAILED_def SUCCEEDED_def)


subsection \<open>ConsoleCloseObject\<close>

lemma close_events:
  "newEvents g (ConsoleCloseObject m g) =
     EvLock # (if closable (ObjectHandle m) g then destroyEvents (ObjectHandle m) @ [EvUnlock] else [])"
  by (cases "ObjectHandle m")
     (simp_all add: newEvents_def ConsoleCloseObject_def prim_defs closable_def Let_def)

lemma close_returns: "returns (ConsoleCloseObject m g) = closable (ObjectHandle m) g"
  by (cases "ObjectHandle m") (simp_all add: ConsoleCloseObject_def prim_defs closable_def Let_def)

lemma close_closable:
  assumes "closable (ObjectHandle m) g"
  shows "ConsoleCloseObject m g =
           Reply (m\<lparr>ReplyStatus := Some STATUS_SUCCESS\<rparr>) (result_state (ConsoleCloseObject m g))"
    and "handleHeap (result_state (ConsoleCloseObject m g)) =
           filter (\<lambda>e. Some (fst e) \<noteq> ObjectHandle m) (handleHeap g)"
  using assms
  by (cases "ObjectHandle m"; simp add: ConsoleCloseObject_def prim_defs closable_def Let_def)+

text \<open>
  C10, as amended. A close request whose handle token is null or the address of a live
  handle object is answered with success: the token is passed to \<^verbatim>\<open>delete\<close> unchecked, the
  object it names (if any) is gone from the heap afterwards, and the message comes back with
  \<^verbatim>\<open>STATUS_SUCCESS\<close> as its reply status, between taking and releasing the lock. A request
  with such a token always returns; one with any other token does not return a reply.
\<close>

theorem close_replies_success:
  assumes "closable (ObjectHandle pMessage) g"
  shows "ConsoleCloseObject pMessage g =
           Reply (pMessage\<lparr>ReplyStatus := Some STATUS_SUCCESS\<rparr>)
             (result_state (ConsoleCloseObject pMessage g))
       \<and> handleHeap (result_state (ConsoleCloseObject pMessage g)) =
           filter (\<lambda>e. Some (fst e) \<noteq> ObjectHandle pMessage) (handleHeap g)
       \<and> newEvents g (ConsoleCloseObject pMessage g) =
           EvLock # destroyEvents (ObjectHandle pMessage) @ [EvUnlock]
       \<and> returns (ConsoleCloseObject pMessage' g') = closable (ObjectHandle pMessage') g'"
  using close_closable [OF assms] assms by (simp add: close_events close_returns)

text \<open>
  A request with the null token on the fresh session, and the request to close handle
  object 0 of a session that has it.
\<close>

theorem close_replies_success_witness:
  "closable (ObjectHandle exampleMsg) freshSession
   \<and> ConsoleCloseObject exampleMsg freshSession =
       Reply (exampleMsg\<lparr>ReplyStatus := Some STATUS_SUCCESS\<rparr>)
         (result_state (ConsoleCloseObject exampleMsg freshSession))
   \<and> newEvents freshSession (ConsoleCloseObject exampleMsg freshSession) = [EvLock, EvUnlock]
   \<and> closable (ObjectHandle closeMsg) oneHandleSession
   \<and> ConsoleCloseObject closeMsg oneHandleSession =
       Reply (closeMsg\<lparr>ReplyStatus := Some STATUS_SUCCESS\<rparr>)
         (result_state (ConsoleCloseObject closeMsg oneHandleSession))
   \<and> handleHeap (result_state (ConsoleCloseObject closeMsg oneHandleSession)) = []
   \<and> newEvents oneHandleSession (ConsoleCloseObject closeMsg oneHandleSession) =
       [EvLock, EvDestroyHandle 0, EvUnlock]"
proof -
  have a: "closable (ObjectHandle exampleMsg) freshSession"
    by (simp add: closable_def exampleMsg_def)
  have b: "closable (ObjectHandle closeMsg) oneHandleSession"
    by (simp add: closable_def closeMsg_def oneHandleSession_def)
  have v: "ObjectHandle exampleMsg = None" "ObjectHandle closeMsg = Some 0"
      "handleHeap oneHandleSession =
         [(0, \<lparr>hd_type = Input, hd_object = InputBuffer, hd_access = GENERIC_READ,
               hd_share = FILE_SHARE_READ\<rparr>)]"
    by (simp_all add: exampleMsg_def closeMsg_def oneHandleSession_def)
  show ?thesis
    using close_replies_success [OF a] close_replies_success [OF b] a b
    by (simp add: v)
qed

text \<open>
  C10 as stated fails for a token no create request produced: the request to close
  address 5 on the fresh session, where the heap is empty, gets no reply at all. The
  \<^verbatim>\<open>delete\<close> of line 127 is undefined, the lock taken at line 125 is still held, and
  line 128 is not reached.
\<close>

theorem close_stray_token_counterexample:
  "ObjectHandle strayCloseMsg = Some 5
   \<and> handleHeap freshSession = []
   \<and> ConsoleCloseObject strayCloseMsg freshSession = Faulted (LockConsole freshSession)
   \<and> result_msg (ConsoleCloseObject strayCloseMsg freshSession) = None
   \<and> \<not> returns (ConsoleCloseObject strayCloseMsg freshSession)"
  by (simp add: ConsoleCloseObject_def DestroyHandle_def strayCloseMsg_def freshSession_def
        LockConsole_def emit_def)

subsection \<open>ConsoleCreateObject\<close>



text \<open>
  C8. When the allocation of a create request has succeeded, the new handle object (at the
  address that was next) ends in one of two ways. If \<^verbatim>\<open>CompleteIo\<close> succeeds, the driver
  holds it and it is still alive: nothing in this call destroyed it. If \<^verbatim>\<open>CompleteIo\<close>
  fails, the driver does not hold it and it has been destroyed before the call returns:
  the heap and the driver's handles are what they were before the request. In both cases
  the call returns \<^verbatim>\<open>nullptr\<close>.
\<close>

theorem create_handle_ownership:
  assumes "allocationSucceeds env m" and "heap_wf g"
  shows "(SUCCEEDED (ce_CompleteIo env) \<longrightarrow>
            nextAddress g \<in> set (driverHandles (result_state (ConsoleCreateObject env m g)))
          \<and> nextAddress g \<in> fst ` set (handleHeap (result_state (ConsoleCreateObject env m g)))
          \<and> EvDestroyHandle (nextAddress g) \<notin> set (newEvents g (ConsoleCreateObject env m g)))
       \<and> (\<not> SUCCEEDED (ce_CompleteIo env) \<longrightarrow>
            nextAddress g \<notin> set (driverHandles (result_state (ConsoleCreateObject env m g)))
          \<and> nextAddress g \<notin> fst ` set (handleHeap (result_state (ConsoleCreateObject env m g)))
          \<and> handleHeap (result_state (ConsoleCreateObject env m g)) = handleHeap g
          \<and> driverHandles (result_state (ConsoleCreateObject env m g)) = driverHandles g
          \<and> EvDestroyHandle (nextAddress g) \<in> set (newEvents g (ConsoleCreateObject env m g)))
       \<and> (\<exists>m' g'. ConsoleCreateObject env m g = Completed m' g')"
proof -
  have fresh_heap: "filter (\<lambda>e. fst e \<noteq> nextAddress g) (handleHeap g) = handleHeap g"
    using assms(2) by (auto simp add: heap_wf_def list_all_iff filter_id_conv)
  have fresh_heap': "nextAddress g \<notin> fst ` set (handleHeap g)"
    using assms(2) by (auto simp add: heap_wf_def list_all_iff)
  have fresh_driver: "nextAddress g \<notin> set (driverHandles g)"
    using assms(2) by (auto simp add: heap_wf_def list_all_iff)
  show ?thesis
    using assms(1) fresh_heap fresh_heap' fresh_driver
    by (simp add: ConsoleCreateObject_def allocationSucceeds_def createSwitch_def newEvents_def
          prim_defs Let_def image_iff split: CD_IO_OBJECT_TYPE.splits)
qed

theorem create_handle_ownership_witness:
  "allocationSucceeds createUndelivered exampleMsg \<and> heap_wf freshSession
   \<and> handleHeap (result_state (ConsoleCreateObject createUndelivered exampleMsg freshSession)) = []
   \<and> driverHandles (result_state (ConsoleCreateObject createUndelivered exampleMsg freshSession)) = []
   \<and> EvDestroyHandle 0 \<in> set (newEvents freshSession
                                  (ConsoleCreateObject createUndelivered exampleMsg freshSession))
   \<and> allocationSucceeds createOk exampleMsg
   \<and> 0 \<in> set (driverHandles (result_state (ConsoleCreateObject createOk exampleMsg freshSession)))"
proof -
  have a1: "allocationSucceeds createUndelivered exampleMsg"
    by (simp add: allocationSucceeds_def createUndelivered_def createOk_def exampleMsg_def
          resolveObjectType_def GENERIC_READ_def GENERIC_WRITE_def status_defs)
  have a2: "allocationSucceeds createOk exampleMsg"
    by (simp add: allocationSucceeds_def createOk_def exampleMsg_def
          resolveObjectType_def GENERIC_READ_def GENERIC_WRITE_def status_defs)
  have wf: "heap_wf freshSession"
    by (simp add: heap_wf_def freshSession_def)
  have f: "\<not> SUCCEEDED (ce_CompleteIo createUndelivered)" "SUCCEEDED (ce_CompleteIo createOk)"
    by (simp_all add: createUndelivered_def createOk_def status_defs)
  have n: "nextAddress freshSession = 0" "handleHeap freshSession = []" "driverHandles freshSession = []"
    by (simp_all add: freshSession_def)
  show ?thesis
    using create_handle_ownership [OF a1 wf] create_handle_ownership [OF a2 wf] a1 a2 wf f n
    by simp
qed

subsection \<open>The trace of local bring-up, block by block\<close>

lemma registerProcess_fst:
  "fst (registerProcess env Cac m g) = (if NT_SUCCESS (e_AllocProcessData env) then Some (nextAddress g) else None)"
  by (simp add: registerProcess_def prim_defs Let_def)

lemma registerProcess_trace:
  "trace (snd (registerProcess env Cac m g)) = trace g @ registerEvents env Cac (nextAddress g)"
  by (simp add: registerProcess_def registerEvents_def prim_defs Let_def)

lemma registerProcess_Flags:
  "gci_Flags (snd (registerProcess env Cac m g)) = gci_Flags g"
  by (simp add: registerProcess_def prim_defs Let_def)

lemma registerProcess_InVtIoMode:
  "gci_InVtIoMode (snd (registerProcess env Cac m g)) = gci_InVtIoMode g"
  by (simp add: registerProcess_def prim_defs Let_def)

lemma registerProcess_nextAddress:
  "nextAddress (snd (registerProcess env Cac m g)) =
     (if NT_SUCCESS (e_AllocProcessData env) then Suc (nextAddress g) else nextAddress g)"
  by (simp add: registerProcess_def prim_defs Let_def)

lemma initializeSession_fst:
  "fst (initializeSession env st g) =
     (if WI_IsFlagClear (gci_Flags g) CONSOLE_INITIALIZED then e_AllocateConsole env else st)"
  by (simp add: initializeSession_def prim_defs Let_def)

lemma initializeSession_trace:
  "trace (snd (initializeSession env st g)) = trace g @ initEvents env (gci_Flags g)"
  by (simp add: initializeSession_def initEvents_def prim_defs Let_def)

lemma initializeSession_nextAddress:
  "nextAddress (snd (initializeSession env st g)) = nextAddress g"
  by (simp add: initializeSession_def prim_defs Let_def)

lemma initializeSession_InVtIoMode:
  "gci_InVtIoMode (snd (initializeSession env st g)) = gci_InVtIoMode g"
  by (simp add: initializeSession_def prim_defs Let_def)

lemma initializeSession_Flags:
  "gci_Flags (snd (initializeSession env st g)) = flagsAfterInit env (gci_Flags g)"
  by (simp add: initializeSession_def flagsAfterInit_def prim_defs Let_def)

lemma associateHistory_fst:
  "fst (associateHistory env Cac p g) = (e_HistoryAllocate env = HistoryThrew)"
  by (simp add: associateHistory_def split: history_outcome.splits)

lemma associateHistory_trace:
  "trace (snd (associateHistory env Cac p g)) = trace g @ historyEvents env p"
  by (simp add: associateHistory_def historyEvents_def prim_defs split: history_outcome.splits)

lemma associateHistory_nextAddress:
  "nextAddress (snd (associateHistory env Cac p g)) = nextAddress g"
  by (simp add: associateHistory_def prim_defs split: history_outcome.splits)

lemma associateHistory_Flags:
  "gci_Flags (snd (associateHistory env Cac p g)) = gci_Flags g"
  by (simp add: associateHistory_def prim_defs split: history_outcome.splits)

lemma associateHistory_InVtIoMode:
  "gci_InVtIoMode (snd (associateHistory env Cac p g)) = gci_InVtIoMode g"
  by (simp add: associateHistory_def prim_defs split: history_outcome.splits)

lemma createPrimaryHandles_fst:
  "fst (createPrimaryHandles env p g) =
     (if NT_SUCCESS (e_AllocateInputHandle env) then e_AllocateOutputHandle env else e_AllocateInputHandle env)"
  by (simp add: createPrimaryHandles_def prim_defs Let_def)

lemma createPrimaryHandles_trace:
  "trace (snd (createPrimaryHandles env p g)) =
     trace g @ handleEvents env (gci_InVtIoMode g \<or> WI_IsFlagSet (gci_Flags g) CONSOLE_HAS_FOCUS) (nextAddress g)"
  by (simp add: createPrimaryHandles_def handleEvents_def prim_defs Let_def)

lemma createPrimaryHandles_Flags:
  "gci_Flags (snd (createPrimaryHandles env p g)) = gci_Flags g"
  by (simp add: createPrimaryHandles_def prim_defs Let_def)

lemma completeConnection_trace:
  "trace (snd (completeConnection env p m g)) = trace g @ completeEvents env p"
  by (simp add: completeConnection_def completeEvents_def prim_defs Let_def)

lemma completeConnection_Flags:
  "gci_Flags (snd (completeConnection env p m g)) = gci_Flags g"
  by (simp add: completeConnection_def prim_defs Let_def)

lemma completeConnection_fst:
  "fst (completeConnection env p m g) =
     m\<lparr>ReplyStatus := Some STATUS_SUCCESS,
       ReplyInformation := Some (of_nat sizeof_CD_CONNECTION_INFORMATION),
       Complete_Write_Size := Some sizeof_CD_CONNECTION_INFORMATION\<rparr>"
  by (simp add: completeConnection_def prim_defs Let_def)

lemmas stage_simps = registerProcess_fst registerProcess_trace registerProcess_Flags registerProcess_nextAddress
  registerProcess_InVtIoMode
  initializeSession_fst initializeSession_trace initializeSession_nextAddress initializeSession_Flags
  initializeSession_InVtIoMode
  associateHistory_fst associateHistory_trace associateHistory_nextAddress associateHistory_Flags associateHistory_InVtIoMode
  createPrimaryHandles_fst createPrimaryHandles_trace createPrimaryHandles_Flags
  completeConnection_trace completeConnection_Flags completeConnection_fst

lemma localBringUp_trace:
  "trace (body_state (localBringUp env Cac m g)) =
     trace g @ bringUpEvents env Cac (gci_Flags g) (gci_InVtIoMode g) (nextAddress g)"
  by (simp add: localBringUp_def case_prod_unfold stage_simps
        bringUpEvents_def initEvents_def registerEvents_def flagsAfterInit_def split: option.splits)

lemma localBringUp_Flags:
  "gci_Flags (body_state (localBringUp env Cac m g)) =
     (if NT_SUCCESS (e_AllocProcessData env) then flagsAfterInit env (gci_Flags g) else gci_Flags g)"
  by (simp add: localBringUp_def case_prod_unfold stage_simps split: option.splits)

lemma localBringUp_shape:
  "body_exits (localBringUp env Cac m g) = False"
  "body_ret (localBringUp env Cac m g) = (\<not> bringUpCompletes env (gci_Flags g))"
  "body_status (localBringUp env Cac m g) = bringUpStatus env (gci_Flags g)"
  "body_process (localBringUp env Cac m g) =
     (if NT_SUCCESS (e_AllocProcessData env) then Some (nextAddress g) else None)"
  "body_msg (localBringUp env Cac m g) =
     Some (if bringUpCompletes env (gci_Flags g)
           then m\<lparr>ReplyStatus := Some STATUS_SUCCESS,
                  ReplyInformation := Some (of_nat sizeof_CD_CONNECTION_INFORMATION),
                  Complete_Write_Size := Some sizeof_CD_CONNECTION_INFORMATION\<rparr>
           else m)"
  by (simp_all add: localBringUp_def case_prod_unfold stage_simps bringUpCompletes_def bringUpStatus_def
        split: option.splits)

lemma body_case:
  "(case b of BodyReturn ret st p m g \<Rightarrow> B ret st p m g | BodyExit g \<Rightarrow> A g) =
     (if body_exits b then A (body_state b)
      else B (body_ret b) (body_status b) (body_process b) (the (body_msg b)) (body_state b))"
  by (cases b) auto

lemma cleanup_fst:
  "fst (cleanup st p m g) = (if NT_SUCCESS st then m else m\<lparr>ReplyStatus := Some st\<rparr>)"
  by (simp add: cleanup_def prim_defs)

lemma cleanup_trace:
  "trace (snd (cleanup st p m g)) = trace g @ cleanupEvents st p"
  by (cases p) (simp_all add: cleanup_def prim_defs)

lemma cleanup_Flags:
  "gci_Flags (snd (cleanup st p m g)) = gci_Flags g"
  by (simp add: cleanup_def prim_defs split: option.splits)

subsection \<open>The trace of the handoff exchange and of the whole request\<close>

lemma attemptHandoff_exited: "handoff_exited (attemptHandoff env g) = handoffExits env"
  by (simp add: attemptHandoff_def handoffExits_def Let_def case_prod_unfold)

lemma attemptHandoff_trace:
  "trace (handoff_state (attemptHandoff env g)) = trace g @ handoffEvents env (nextHandle g) (hInputEvent g)"
  by (simp add: attemptHandoff_def handoff_event_defs prim_defs Let_def case_prod_unfold split: option.splits)

lemma attemptHandoff_Flags: "gci_Flags (handoff_state (attemptHandoff env g)) = gci_Flags g"
  by (simp add: attemptHandoff_def prim_defs Let_def case_prod_unfold split: option.splits)

lemma attemptHandoff_nextAddress: "nextAddress (handoff_state (attemptHandoff env g)) = nextAddress g"
  by (simp add: attemptHandoff_def prim_defs Let_def case_prod_unfold split: option.splits)

lemma attemptHandoff_InVtIoMode: "gci_InVtIoMode (handoff_state (attemptHandoff env g)) = gci_InVtIoMode g"
  by (simp add: attemptHandoff_def prim_defs Let_def case_prod_unfold split: option.splits)

lemma handoff_case:
  "(case attemptHandoff env g of HandoffExit g2 \<Rightarrow> A g2 | HandoffFailed g2 \<Rightarrow> B g2) =
     (if handoffExits env then A (handoff_state (attemptHandoff env g))
      else B (handoff_state (attemptHandoff env g)))"
  using attemptHandoff_exited [of env g] by (cases "attemptHandoff env g") auto

lemma shouldAttemptHandoff_trace:
  "shouldAttemptHandoff env (g\<lparr>trace := t\<rparr>) cac = shouldAttemptHandoff env g cac"
  by (simp add: shouldAttemptHandoff_def cong: if_cong split del: if_split)

lemma connectionBody_exits:
  "body_exits (connectionBody env m g) =
     (NT_SUCCESS (e_InitializeConnectInfo env) \<and> shouldAttemptHandoff env g (e_Cac env) \<and> handoffExits env)"
  by (simp add: connectionBody_def Let_def handoff_case localBringUp_shape emit_def shouldAttemptHandoff_trace)

lemma connectionBody_trace:
  "trace (body_state (connectionBody env m g)) =
     trace g @
     (if \<not> NT_SUCCESS (e_InitializeConnectInfo env) then []
      else EvShouldAttemptHandoff #
        (if shouldAttemptHandoff env g (e_Cac env)
         then handoffEvents env (nextHandle g) (hInputEvent g) @
              (if handoffExits env then []
               else bringUpEvents env (e_Cac env) (gci_Flags g) (gci_InVtIoMode g) (nextAddress g))
         else bringUpEvents env (e_Cac env) (gci_Flags g) (gci_InVtIoMode g) (nextAddress g)))"
  by (simp add: connectionBody_def Let_def handoff_case localBringUp_trace
        attemptHandoff_trace attemptHandoff_Flags attemptHandoff_nextAddress attemptHandoff_InVtIoMode
        emit_def shouldAttemptHandoff_trace)

lemma CI_nonzero: "CONSOLE_INITIALIZED \<noteq> 0" by (simp add: CONSOLE_INITIALIZED_def)

lemma set_not_clear: "WI_IsFlagSet f CONSOLE_INITIALIZED \<Longrightarrow> \<not> WI_IsFlagClear f CONSOLE_INITIALIZED"
  using CI_nonzero by (simp add: WI_IsFlagSet_def WI_IsFlagClear_def)

lemma set_after_SetFlag: "WI_IsFlagSet (WI_SetFlag f c) c"
  by (simp add: WI_IsFlagSet_def WI_SetFlag_def word_bw_assocs word_bw_comms word_ao_absorbs)

lemma clear_or_set: "WI_IsFlagClear f CONSOLE_INITIALIZED \<Longrightarrow> \<not> WI_IsFlagSet f CONSOLE_INITIALIZED"
  using CI_nonzero by (auto simp add: WI_IsFlagSet_def WI_IsFlagClear_def)

lemma initialized_flagsAfterInit:
  "WI_IsFlagSet (flagsAfterInit env f) CONSOLE_INITIALIZED =
     (WI_IsFlagSet f CONSOLE_INITIALIZED \<or>
      (WI_IsFlagClear f CONSOLE_INITIALIZED \<and> NT_SUCCESS (e_AllocateConsole env)))"
  using set_after_SetFlag [of f CONSOLE_INITIALIZED] clear_or_set [of f]
  by (auto simp add: flagsAfterInit_def)

lemmas bringUp_event_defs = bringUpEvents_def registerEvents_def initEvents_def historyEvents_def
  handleEvents_def completeEvents_def

lemma count_handoff_should: "count_list (handoffEvents env n h) EvShouldAttemptHandoff = 0"
  by (cases h) (simp_all add: handoff_event_defs)

lemma count_bringUp_should: "count_list (bringUpEvents env cac f v a) EvShouldAttemptHandoff = 0"
  by (simp add: bringUp_event_defs split: history_outcome.splits)

lemma count_cleanup_should: "count_list (cleanupEvents st p) EvShouldAttemptHandoff = 0"
  by (cases p) simp_all

lemma count_handoff_Lock: "count_list (handoffEvents env n h) EvLock = 0"
  by (cases h) (simp_all add: handoff_event_defs)

lemma count_bringUp_Lock: "count_list (bringUpEvents env cac f v a) EvLock = 0"
  by (simp add: bringUp_event_defs split: history_outcome.splits)

lemma count_cleanup_Lock: "count_list (cleanupEvents st p) EvLock = 0"
  by (cases p) simp_all

lemma count_handoff_Unlock:
  "count_list (handoffEvents env n h) EvUnlock = (if handoffExits env then 1 else 0)"
  by (cases h) (simp_all add: handoff_event_defs handoffExits_def)

lemma count_bringUp_Unlock: "count_list (bringUpEvents env cac f v a) EvUnlock = 0"
  by (simp add: bringUp_event_defs split: history_outcome.splits)

lemma count_cleanup_Unlock: "count_list (cleanupEvents st p) EvUnlock = 1"
  by (cases p) simp_all

lemma count_handoff_SetInitialized: "count_list (handoffEvents env n h) EvSetInitialized = 0"
  by (cases h) (simp_all add: handoff_event_defs)

lemma count_cleanup_SetInitialized: "count_list (cleanupEvents st p) EvSetInitialized = 0"
  by (cases p) simp_all

lemma count_bringUp_SetInitialized:
  "count_list (bringUpEvents env cac f v a) EvSetInitialized =
     (if NT_SUCCESS (e_AllocProcessData env) \<and> WI_IsFlagClear f CONSOLE_INITIALIZED \<and>
         NT_SUCCESS (e_AllocateConsole env) then 1 else 0)"
  by (simp add: bringUp_event_defs split: history_outcome.splits)

lemma count_handoff_AllocateConsole: "count_list (handoffEvents env n h) EvAllocateConsole = 0"
  by (cases h) (simp_all add: handoff_event_defs)

lemma count_cleanup_AllocateConsole: "count_list (cleanupEvents st p) EvAllocateConsole = 0"
  by (cases p) simp_all

lemma count_bringUp_AllocateConsole:
  "count_list (bringUpEvents env cac f v a) EvAllocateConsole =
     (if NT_SUCCESS (e_AllocProcessData env) \<and> WI_IsFlagClear f CONSOLE_INITIALIZED then 1 else 0)"
  by (simp add: bringUp_event_defs split: history_outcome.splits)

lemmas count_simps = count_handoff_should count_bringUp_should count_cleanup_should
  count_handoff_Lock count_bringUp_Lock count_cleanup_Lock
  count_handoff_Unlock count_bringUp_Unlock count_cleanup_Unlock
  count_handoff_SetInitialized count_cleanup_SetInitialized count_bringUp_SetInitialized
  count_handoff_AllocateConsole count_cleanup_AllocateConsole count_bringUp_AllocateConsole

lemma connectionBody_status:
  "body_status (connectionBody env m g) =
     (if \<not> NT_SUCCESS (e_InitializeConnectInfo env) then e_InitializeConnectInfo env
      else if shouldAttemptHandoff env g (e_Cac env) \<and> handoffExits env then 0
      else bringUpStatus env (gci_Flags g))"
  by (simp add: connectionBody_def Let_def handoff_case localBringUp_shape emit_def
        shouldAttemptHandoff_trace attemptHandoff_Flags)

lemma connectionBody_process:
  "body_process (connectionBody env m g) =
     (if NT_SUCCESS (e_InitializeConnectInfo env) \<and>
         \<not> (shouldAttemptHandoff env g (e_Cac env) \<and> handoffExits env) \<and>
         NT_SUCCESS (e_AllocProcessData env)
      then Some (nextAddress g) else None)"
  by (simp add: connectionBody_def Let_def handoff_case localBringUp_shape emit_def
        shouldAttemptHandoff_trace attemptHandoff_nextAddress)

lemma connectionBody_Flags:
  "gci_Flags (body_state (connectionBody env m g)) =
     (if NT_SUCCESS (e_InitializeConnectInfo env) \<and>
         \<not> (shouldAttemptHandoff env g (e_Cac env) \<and> handoffExits env) \<and>
         NT_SUCCESS (e_AllocProcessData env)
      then flagsAfterInit env (gci_Flags g) else gci_Flags g)"
  by (simp add: connectionBody_def Let_def handoff_case localBringUp_Flags emit_def
        shouldAttemptHandoff_trace attemptHandoff_Flags)

lemma connection_result_state:
  "result_state (ConsoleHandleConnectionRequest env m g) =
     (let b = connectionBody env m (LockConsole (emit EvTelemetry g))
      in if body_exits b then body_state b
         else snd (cleanup (body_status b) (body_process b) (the (body_msg b)) (body_state b)))"
  by (simp add: ConsoleHandleConnectionRequest_def Let_def body_case case_prod_unfold)

lemma connection_returns:
  "returns (ConsoleHandleConnectionRequest env m g) =
     (\<not> (NT_SUCCESS (e_InitializeConnectInfo env) \<and> shouldAttemptHandoff env g (e_Cac env) \<and>
         handoffExits env))"
  by (simp add: ConsoleHandleConnectionRequest_def Let_def body_case case_prod_unfold
        connectionBody_exits LockConsole_def emit_def shouldAttemptHandoff_trace)

lemma connection_trace:
  "trace (result_state (ConsoleHandleConnectionRequest env m g)) = trace g @ connectionEvents env g"
  by (simp add: connection_result_state Let_def connectionBody_exits connectionBody_trace
        connectionBody_status connectionBody_process cleanup_trace
        LockConsole_def emit_def shouldAttemptHandoff_trace connectionEvents_def localEvents_def)

lemma connection_Flags:
  "gci_Flags (result_state (ConsoleHandleConnectionRequest env m g)) =
     (if NT_SUCCESS (e_InitializeConnectInfo env) \<and>
         \<not> (shouldAttemptHandoff env g (e_Cac env) \<and> handoffExits env) \<and>
         NT_SUCCESS (e_AllocProcessData env)
      then flagsAfterInit env (gci_Flags g) else gci_Flags g)"
  by (auto simp add: connection_result_state Let_def connectionBody_exits connectionBody_Flags
        cleanup_Flags LockConsole_def emit_def shouldAttemptHandoff_trace)

lemma connection_newEvents:
  "newEvents g (ConsoleHandleConnectionRequest env m g) = connectionEvents env g"
  by (simp add: newEvents_def connection_trace)

subsection \<open>The handoff decision\<close>

lemma holds_blocks: "holds c env g cac \<Longrightarrow> \<not> shouldAttemptHandoff env g cac"
  by (cases c) (simp_all add: shouldAttemptHandoff_def)

lemma should_iff:
  "shouldAttemptHandoff env g cac =
     (TIL_FEATURE_ATTEMPTHANDOFF_ENABLED env \<and> list_all (\<lambda>c. \<not> holds c env g cac) condition_order)"
  by (simp add: shouldAttemptHandoff_def condition_order_def)

lemma tested_prefix:
  "conditionsTested env g cac =
     (if TIL_FEATURE_ATTEMPTHANDOFF_ENABLED env
      then takeWhile (\<lambda>c. \<not> holds c env g cac) condition_order @
           take 1 (dropWhile (\<lambda>c. \<not> holds c env g cac) condition_order)
      else [])"
  by (simp add: conditionsTested_def condition_order_def)

lemma count_connection_should:
  "count_list (connectionEvents env g) EvShouldAttemptHandoff =
     (if NT_SUCCESS (e_InitializeConnectInfo env) then 1 else 0)"
  by (simp add: connectionEvents_def localEvents_def count_simps)

lemma ex_should_fresh: "\<not> shouldAttemptHandoff connectOk freshSession exampleCac"
  by (simp add: shouldAttemptHandoff_def example_defs)

lemma ex_should_handoff: "shouldAttemptHandoff connectOk handoffSession exampleCac"
  by (simp add: shouldAttemptHandoff_def example_defs isInteractiveUserSession_def flag_defs)

lemma ex_completes: "bringUpCompletes connectOk 0"
  by (simp add: bringUpCompletes_def example_defs status_defs)

text \<open>
  C7. Each of the blocking conditions alone decides the predicate: if it holds, the
  predicate is false, whatever the other inputs are. The predicate is true exactly when the
  feature is compiled in and none of the conditions of the cascade holds. It short-circuits:
  the conditions it has tested when it returns are those before the first one that holds,
  and that one. And a connection request evaluates it once when the connect descriptor is
  valid, and not at all otherwise.
\<close>

theorem handoff_predicate_monotone:
  "(holds c env g cac \<longrightarrow> \<not> shouldAttemptHandoff env g cac)
   \<and> shouldAttemptHandoff env g cac =
       (TIL_FEATURE_ATTEMPTHANDOFF_ENABLED env \<and> list_all (\<lambda>c. \<not> holds c env g cac) condition_order)
   \<and> conditionsTested env g cac =
       (if TIL_FEATURE_ATTEMPTHANDOFF_ENABLED env
        then takeWhile (\<lambda>c. \<not> holds c env g cac) condition_order @
             take 1 (dropWhile (\<lambda>c. \<not> holds c env g cac) condition_order)
        else [])
   \<and> count_list (newEvents g (ConsoleHandleConnectionRequest env m g)) EvShouldAttemptHandoff =
       (if NT_SUCCESS (e_InitializeConnectInfo env) then 1 else 0)"
  using holds_blocks [of c env g cac] should_iff [of env g cac] tested_prefix [of env g cac]
  by (simp only: connection_newEvents count_connection_should) blast

text \<open>
  With a registered target the example connection is handed off; make the server headless
  and it is not, and the cascade stops at the headless test.
\<close>

theorem handoff_predicate_monotone_witness:
  "shouldAttemptHandoff connectOk handoffSession exampleCac
   \<and> holds HeadlessMode connectOk (handoffSession\<lparr>launchArgs_Headless := True\<rparr>) exampleCac
   \<and> \<not> shouldAttemptHandoff connectOk (handoffSession\<lparr>launchArgs_Headless := True\<rparr>) exampleCac
   \<and> conditionsTested connectOk (handoffSession\<lparr>launchArgs_Headless := True\<rparr>) exampleCac =
       [NonInteractive, HandoffDisabled, ForcedLocalHosting, AlreadyInitialized, AttachOnly, HeadlessMode]
   \<and> count_list (newEvents handoffSession
                    (ConsoleHandleConnectionRequest connectOk exampleMsg handoffSession))
        EvShouldAttemptHandoff = 1"
proof -
  have h: "holds HeadlessMode connectOk (handoffSession\<lparr>launchArgs_Headless := True\<rparr>) exampleCac"
    by simp
  have i: "NT_SUCCESS (e_InitializeConnectInfo connectOk)"
    by (simp add: connectOk_def status_defs)
  have t: "conditionsTested connectOk (handoffSession\<lparr>launchArgs_Headless := True\<rparr>) exampleCac =
       [NonInteractive, HandoffDisabled, ForcedLocalHosting, AlreadyInitialized, AttachOnly, HeadlessMode]"
    by (simp add: conditionsTested_def condition_order_def example_defs isInteractiveUserSession_def
          flag_defs)
  show ?thesis
    using handoff_predicate_monotone
            [of HeadlessMode connectOk "handoffSession\<lparr>launchArgs_Headless := True\<rparr>" exampleCac exampleMsg]
          handoff_predicate_monotone [of HeadlessMode connectOk handoffSession exampleCac exampleMsg]
          h i t ex_should_handoff
    by simp
qed

subsection \<open>The lock\<close>

lemma lockDepth_Cons: "lockDepth (e # es) = lockDelta e + lockDepth es"
  by (cases e) (simp_all add: lockDepth_def)

lemma underLock_append:
  "underLock d (xs @ ys) = (underLock d xs \<and> underLock (d + lockDepth xs) ys)"
proof (induction xs arbitrary: d)
  case Nil
  show ?case by (simp add: lockDepth_def)
next
  case (Cons e xs)
  show ?case
    by (simp add: Cons.IH lockDepth_Cons add.assoc)
qed

lemma underLock_nolock:
  "count_list es EvLock = 0 \<Longrightarrow> count_list es EvUnlock = 0 \<Longrightarrow> 0 < d \<Longrightarrow> underLock d es"
proof (induction es arbitrary: d)
  case Nil
  show ?case by simp
next
  case (Cons e es)
  have "lockDelta e = 0"
    using Cons.prems(1,2) by (cases e) (simp_all split: if_splits)
  then show ?case
    using Cons by (simp split: if_splits)
qed

lemma create_events:
  "newEvents g (ConsoleCreateObject env m g) =
     EvLock #
     (if allocationSucceeds env m
      then [EvAllocateIoHandle (nextAddress g), EvPutHandle (nextAddress g), EvCompleteIo, EvUnlock] @
           (if SUCCEEDED (ce_CompleteIo env) then [] else [EvDestroyHandle (nextAddress g)])
      else [EvUnlock])"
  using invalid_parameter_fails
  by (simp add: newEvents_def ConsoleCreateObject_def createSwitch_def allocationSucceeds_def
        prim_defs Let_def split: CD_IO_OBJECT_TYPE.splits)

lemma create_returns: "returns (ConsoleCreateObject env m g)"
  using invalid_parameter_fails
  by (simp add: ConsoleCreateObject_def createSwitch_def prim_defs Let_def
        split: CD_IO_OBJECT_TYPE.splits)

lemma connection_lock_counts:
  "count_list (connectionEvents env g) EvLock = 1" "count_list (connectionEvents env g) EvUnlock = 1"
  by (simp_all add: connectionEvents_def localEvents_def count_simps)

lemma connection_takeWhile:
  "takeWhile (\<lambda>e. e \<noteq> EvLock) (connectionEvents env g) = [EvTelemetry]"
  by (simp add: connectionEvents_def)

lemma underLock_cleanup: "underLock 1 (cleanupEvents st p)"
  by (cases p) simp_all

lemma underLock_local: "underLock 1 (localEvents env g)"
proof -
  let ?b = "bringUpEvents env (e_Cac env) (gci_Flags g) (gci_InVtIoMode g) (nextAddress g)"
  have "underLock 1 ?b"
    by (rule underLock_nolock) (simp_all add: count_simps)
  moreover have "lockDepth ?b = 0"
    by (simp add: lockDepth_def count_simps)
  ultimately show ?thesis
    by (simp add: localEvents_def underLock_append underLock_cleanup)
qed

lemma underLock_handoff_exit: "handoffExits env \<Longrightarrow> underLock 1 (handoffEvents env n h)"
  by (cases h) (simp_all add: handoffExits_def handoff_event_defs)

lemma underLock_handoff:
  "underLock 1 (handoffEvents env n h @ (if handoffExits env then [] else localEvents env g))"
proof (cases "handoffExits env")
  case True
  then show ?thesis by (simp add: underLock_handoff_exit)
next
  case False
  have "underLock 1 (handoffEvents env n h)"
    using False by (intro underLock_nolock) (simp_all add: count_simps)
  moreover have "lockDepth (handoffEvents env n h) = 0"
    using False by (simp add: lockDepth_def count_simps)
  ultimately show ?thesis
    using False by (simp add: underLock_append underLock_local)
qed

lemma underLock_connection: "underLock 0 (connectionEvents env g)"
  using underLock_handoff [of env "nextHandle g" "hInputEvent g" g] underLock_local [of env g]
  by (simp add: connectionEvents_def)

lemma liveProcess_trace: "liveProcess p (g\<lparr>trace := t\<rparr>) = liveProcess p g"
  by (cases p) (simp_all add: liveProcess_def)

lemma disconnect_newEvents:
  "newEvents g (ConsoleClientDisconnectRoutine env m g) =
     EvTelemetry #
     (if de_AccessibilityNotifier env \<and> \<not> liveProcess (ProcessHandle m) g then []
      else (if de_AccessibilityNotifier env then [EvAccessibilityEnd] else []) @
           [EvTraceAttachDetach, EvRemoveConsole (ProcessHandle m)] @
           (if FAILED (de_RemoveConsole env) then [EvLogCaught] else []))"
  by (cases "ProcessHandle m")
     (simp_all add: newEvents_def ConsoleClientDisconnectRoutine_def RemoveConsole_def
        liveProcess_trace prim_defs Let_def)

text \<open>
  C2, as amended. \<^verbatim>\<open>ConsoleCreateObject\<close>, \<^verbatim>\<open>ConsoleCloseObject\<close> and
  \<^verbatim>\<open>ConsoleHandleConnectionRequest\<close> take the lock before they change anything it protects,
  and whenever they return, on failing paths too, and at the exit after a handoff, they have
  released it as often as they have taken it. \<^verbatim>\<open>ConsoleCloseObject\<close> and
  \<^verbatim>\<open>ConsoleHandleConnectionRequest\<close> change protected state only while they hold the lock,
  and so does \<^verbatim>\<open>ConsoleCreateObject\<close> on every path but the one on which an allocated
  handle is not delivered, about which nothing is said here. \<^verbatim>\<open>ConsoleClientDisconnectRoutine\<close>
  neither takes nor releases the lock itself: it leaves the lock as it found it and hands
  the teardown to \<^verbatim>\<open>RemoveConsole\<close>.
\<close>

theorem lock_discipline:
  "lockedBeforeMutation (newEvents g (ConsoleCreateObject cenv m g))
   \<and> lockDepth (newEvents g (ConsoleCreateObject cenv m g)) = 0
   \<and> returns (ConsoleCreateObject cenv m g)
   \<and> ((allocationSucceeds cenv m \<longrightarrow> SUCCEEDED (ce_CompleteIo cenv)) \<longrightarrow>
          underLock 0 (newEvents g (ConsoleCreateObject cenv m g)))
   \<and> lockedBeforeMutation (newEvents g (ConsoleCloseObject m g))
   \<and> underLock 0 (newEvents g (ConsoleCloseObject m g))
   \<and> (returns (ConsoleCloseObject m g) \<longrightarrow> lockDepth (newEvents g (ConsoleCloseObject m g)) = 0)
   \<and> lockedBeforeMutation (newEvents g (ConsoleHandleConnectionRequest env m g))
   \<and> underLock 0 (newEvents g (ConsoleHandleConnectionRequest env m g))
   \<and> lockDepth (newEvents g (ConsoleHandleConnectionRequest env m g)) = 0
   \<and> count_list (newEvents g (ConsoleClientDisconnectRoutine denv m g)) EvLock = 0
   \<and> count_list (newEvents g (ConsoleClientDisconnectRoutine denv m g)) EvUnlock = 0"
proof -
  have cr: "lockedBeforeMutation (newEvents g (ConsoleCreateObject cenv m g))
          \<and> lockDepth (newEvents g (ConsoleCreateObject cenv m g)) = 0
          \<and> ((allocationSucceeds cenv m \<longrightarrow> SUCCEEDED (ce_CompleteIo cenv)) \<longrightarrow>
                underLock 0 (newEvents g (ConsoleCreateObject cenv m g)))"
    by (simp add: create_events lockedBeforeMutation_def lockDepth_def)
  have cl: "lockedBeforeMutation (newEvents g (ConsoleCloseObject m g))
          \<and> underLock 0 (newEvents g (ConsoleCloseObject m g))
          \<and> (returns (ConsoleCloseObject m g) \<longrightarrow> lockDepth (newEvents g (ConsoleCloseObject m g)) = 0)"
    by (cases "ObjectHandle m")
       (simp_all add: close_events close_returns lockedBeforeMutation_def lockDepth_def)
  have "EvLock \<in> set (connectionEvents env g)"
    by (simp add: connectionEvents_def)
  then have conn: "lockedBeforeMutation (connectionEvents env g) \<and> lockDepth (connectionEvents env g) = 0"
    using connection_lock_counts [of env g] connection_takeWhile [of env g]
    by (simp add: lockedBeforeMutation_def lockDepth_def)
  have dis: "count_list (newEvents g (ConsoleClientDisconnectRoutine denv m g)) EvLock = 0
           \<and> count_list (newEvents g (ConsoleClientDisconnectRoutine denv m g)) EvUnlock = 0"
    by (simp add: disconnect_newEvents)
  show ?thesis
    using cr cl conn dis create_returns [of cenv m g] underLock_connection [of env g]
    by (simp add: connection_newEvents)
qed

lemma ex_create_events:
  "newEvents freshSession (ConsoleCreateObject createUndelivered exampleMsg freshSession) =
     [EvLock, EvAllocateIoHandle 0, EvPutHandle 0, EvCompleteIo, EvUnlock, EvDestroyHandle 0]"
  by (simp add: create_events allocationSucceeds_def resolveObjectType_def
        example_defs status_defs GENERIC_READ_def GENERIC_WRITE_def)

lemma ex_create_ok:
  "allocationSucceeds createOk exampleMsg" "SUCCEEDED (ce_CompleteIo createOk)"
  by (simp_all add: allocationSucceeds_def resolveObjectType_def
        example_defs status_defs GENERIC_READ_def GENERIC_WRITE_def)

lemma ex_disconnect_events:
  "newEvents connectedSession (ConsoleClientDisconnectRoutine disconnectOk disconnectMsg connectedSession) =
     [EvTelemetry, EvAccessibilityEnd, EvTraceAttachDetach, EvRemoveConsole (Some 0)]"
  by (simp add: disconnect_newEvents liveProcess_def disconnectMsg_def disconnectOk_def
        connectedSession_def status_defs)

lemma ex_disconnect_state:
  "gci_ProcessHandleList
     (result_state (ConsoleClientDisconnectRoutine disconnectOk disconnectMsg connectedSession)) = []"
  by (simp add: ConsoleClientDisconnectRoutine_def RemoveConsole_def liveProcess_def prim_defs Let_def
        disconnectMsg_def disconnectOk_def connectedSession_def status_defs)

text \<open>
  A delivered create request, the closing of the handle object it made, the first
  connection, and the disconnect of a connected process.
\<close>

theorem lock_discipline_witness:
  "allocationSucceeds createOk exampleMsg \<and> SUCCEEDED (ce_CompleteIo createOk)
   \<and> underLock 0 (newEvents freshSession (ConsoleCreateObject createOk exampleMsg freshSession))
   \<and> lockDepth (newEvents freshSession (ConsoleCreateObject createOk exampleMsg freshSession)) = 0
   \<and> newEvents freshSession (ConsoleCreateObject createOk exampleMsg freshSession) =
       [EvLock, EvAllocateIoHandle 0, EvPutHandle 0, EvCompleteIo, EvUnlock]
   \<and> returns (ConsoleCloseObject closeMsg oneHandleSession)
   \<and> underLock 0 (newEvents oneHandleSession (ConsoleCloseObject closeMsg oneHandleSession))
   \<and> lockDepth (newEvents oneHandleSession (ConsoleCloseObject closeMsg oneHandleSession)) = 0
   \<and> underLock 0 (newEvents freshSession (ConsoleHandleConnectionRequest connectOk exampleMsg freshSession))
   \<and> lockDepth (newEvents freshSession (ConsoleHandleConnectionRequest connectOk exampleMsg freshSession)) = 0
   \<and> count_list (newEvents connectedSession
                    (ConsoleClientDisconnectRoutine disconnectOk disconnectMsg connectedSession)) EvLock = 0"
proof -
  have r: "returns (ConsoleCloseObject closeMsg oneHandleSession)"
    by (simp add: close_returns closable_def closeMsg_def oneHandleSession_def)
  have e: "newEvents freshSession (ConsoleCreateObject createOk exampleMsg freshSession) =
       [EvLock, EvAllocateIoHandle 0, EvPutHandle 0, EvCompleteIo, EvUnlock]"
    using ex_create_ok by (simp add: create_events freshSession_def)
  note L1 = lock_discipline [of freshSession createOk exampleMsg connectOk disconnectOk]
  note L2 = lock_discipline [of oneHandleSession createOk closeMsg connectOk disconnectOk]
  note L3 = lock_discipline [of connectedSession createOk disconnectMsg connectOk disconnectOk]
  show ?thesis
    using L1 L2 L3 r e ex_create_ok by blast
qed

text \<open>
  C2 as stated fails for the disconnect routine: on a session with one connected process
  it runs to the end without taking the lock, and the process record is gone afterwards.
\<close>

theorem lock_discipline_counterexample:
  "\<not> lockedBeforeMutation
       (newEvents connectedSession
          (ConsoleClientDisconnectRoutine disconnectOk disconnectMsg connectedSession))
   \<and> newEvents connectedSession
        (ConsoleClientDisconnectRoutine disconnectOk disconnectMsg connectedSession) =
       [EvTelemetry, EvAccessibilityEnd, EvTraceAttachDetach, EvRemoveConsole (Some 0)]
   \<and> count_list (newEvents connectedSession
        (ConsoleClientDisconnectRoutine disconnectOk disconnectMsg connectedSession)) EvLock = 0
   \<and> gci_ProcessHandleList connectedSession \<noteq> []
   \<and> gci_ProcessHandleList
        (result_state (ConsoleClientDisconnectRoutine disconnectOk disconnectMsg connectedSession)) = []"
proof -
  have "gci_ProcessHandleList connectedSession \<noteq> []"
    by (simp add: connectedSession_def)
  then show ?thesis
    by (simp add: ex_disconnect_events ex_disconnect_state lockedBeforeMutation_def)
qed

text \<open>
  The path of \<^verbatim>\<open>ConsoleCreateObject\<close> left out above. When the allocation succeeds and
  \<^verbatim>\<open>CompleteIo\<close> fails, the local \<^verbatim>\<open>unique_ptr\<close> still owns the handle object, and its
  destructor runs when the function returns, after the \<^verbatim>\<open>UnlockConsole\<close> of line 112: the
  handle object is destroyed with the lock released.
\<close>

lemma create_destroys_after_unlock:
  assumes "allocationSucceeds env m" and "\<not> SUCCEEDED (ce_CompleteIo env)"
  shows "newEvents g (ConsoleCreateObject env m g) =
           [EvLock, EvAllocateIoHandle (nextAddress g), EvPutHandle (nextAddress g), EvCompleteIo,
            EvUnlock, EvDestroyHandle (nextAddress g)]"
    and "\<not> underLock 0 (newEvents g (ConsoleCreateObject env m g))"
  using assms by (simp_all add: create_events)

subsection \<open>The session is initialized once\<close>

lemma trace_create:
  "trace (result_state (ConsoleCreateObject env m g)) = trace g @ newEvents g (ConsoleCreateObject env m g)"
  by (simp add: newEvents_def ConsoleCreateObject_def createSwitch_def prim_defs Let_def
        split: CD_IO_OBJECT_TYPE.splits)

lemma trace_close:
  "trace (result_state (ConsoleCloseObject m g)) = trace g @ newEvents g (ConsoleCloseObject m g)"
  by (cases "ObjectHandle m") (simp_all add: newEvents_def ConsoleCloseObject_def prim_defs Let_def)

lemma trace_disconnect:
  "trace (result_state (ConsoleClientDisconnectRoutine env m g)) =
     trace g @ newEvents g (ConsoleClientDisconnectRoutine env m g)"
  by (cases "ProcessHandle m")
     (simp_all add: newEvents_def ConsoleClientDisconnectRoutine_def RemoveConsole_def
        liveProcess_trace prim_defs Let_def)

lemma trace_dispatch: "trace (result_state (dispatch r g)) = trace g @ newEvents g (dispatch r g)"
  by (cases r) (simp_all add: trace_create trace_close trace_disconnect connection_trace connection_newEvents)

lemma Flags_create: "gci_Flags (result_state (ConsoleCreateObject env m g)) = gci_Flags g"
  by (simp add: ConsoleCreateObject_def createSwitch_def prim_defs Let_def
        split: CD_IO_OBJECT_TYPE.splits)

lemma Flags_close: "gci_Flags (result_state (ConsoleCloseObject m g)) = gci_Flags g"
  by (cases "ObjectHandle m") (simp_all add: ConsoleCloseObject_def prim_defs Let_def)

lemma Flags_disconnect: "gci_Flags (result_state (ConsoleClientDisconnectRoutine env m g)) = gci_Flags g"
  by (cases "ProcessHandle m")
     (simp_all add: ConsoleClientDisconnectRoutine_def RemoveConsole_def prim_defs Let_def)

lemma no_init_create:
  "count_list (newEvents g (ConsoleCreateObject env m g)) EvSetInitialized = 0"
  "count_list (newEvents g (ConsoleCreateObject env m g)) EvAllocateConsole = 0"
  by (simp_all add: newEvents_def ConsoleCreateObject_def createSwitch_def prim_defs Let_def
        split: CD_IO_OBJECT_TYPE.splits)

lemma no_init_close:
  "count_list (newEvents g (ConsoleCloseObject m g)) EvSetInitialized = 0"
  "count_list (newEvents g (ConsoleCloseObject m g)) EvAllocateConsole = 0"
  by (cases "ObjectHandle m"; simp add: close_events)+

lemma no_init_disconnect:
  "count_list (newEvents g (ConsoleClientDisconnectRoutine env m g)) EvSetInitialized = 0"
  "count_list (newEvents g (ConsoleClientDisconnectRoutine env m g)) EvAllocateConsole = 0"
  by (simp_all add: disconnect_newEvents)

lemma count_connection_init:
  "count_list (connectionEvents env g) EvSetInitialized =
     (if NT_SUCCESS (e_InitializeConnectInfo env) \<and>
         \<not> (shouldAttemptHandoff env g (e_Cac env) \<and> handoffExits env) \<and>
         NT_SUCCESS (e_AllocProcessData env) \<and> WI_IsFlagClear (gci_Flags g) CONSOLE_INITIALIZED \<and>
         NT_SUCCESS (e_AllocateConsole env) then 1 else 0)"
  "count_list (connectionEvents env g) EvAllocateConsole =
     (if NT_SUCCESS (e_InitializeConnectInfo env) \<and>
         \<not> (shouldAttemptHandoff env g (e_Cac env) \<and> handoffExits env) \<and>
         NT_SUCCESS (e_AllocProcessData env) \<and> WI_IsFlagClear (gci_Flags g) CONSOLE_INITIALIZED
      then 1 else 0)"
  by (auto simp add: connectionEvents_def localEvents_def count_simps)

lemma dispatch_initializes:
  "count_list (newEvents g (dispatch r g)) EvSetInitialized =
     (if \<not> initialized g \<and> initialized (result_state (dispatch r g)) then 1 else 0)"
proof (cases r)
  case (ConnectionRequest env m)
  show ?thesis
    using clear_or_set [of "gci_Flags g"]
    by (auto simp add: ConnectionRequest connection_newEvents count_connection_init connection_Flags
          initialized_def initialized_flagsAfterInit)
qed (simp_all add: no_init_create no_init_close no_init_disconnect Flags_create Flags_close
       Flags_disconnect initialized_def)

lemma dispatch_keeps_initialized:
  "initialized g \<Longrightarrow>
     initialized (result_state (dispatch r g)) \<and>
     count_list (newEvents g (dispatch r g)) EvAllocateConsole = 0"
proof (cases r)
  case (ConnectionRequest env m)
  assume "initialized g"
  then show ?thesis
    using set_not_clear [of "gci_Flags g"]
    by (auto simp add: ConnectionRequest connection_newEvents count_connection_init connection_Flags
          initialized_def initialized_flagsAfterInit)
qed (simp_all add: no_init_create no_init_close no_init_disconnect Flags_create Flags_close
       Flags_disconnect initialized_def)

lemma serve_extends: "\<exists>es. trace (serve rs g) = trace g @ es"
proof (induction rs arbitrary: g)
  case Nil
  show ?case by simp
next
  case (Cons r rs)
  obtain es where "trace (serve rs (result_state (dispatch r g))) = trace (result_state (dispatch r g)) @ es"
    using Cons.IH by blast
  then show ?case
    by (simp add: trace_dispatch [of r g])
qed

lemma serve_trace: "trace (serve rs g) = trace g @ servedEvents rs g"
proof -
  obtain es where "trace (serve rs g) = trace g @ es"
    using serve_extends by blast
  then show ?thesis by (simp add: servedEvents_def)
qed

lemma servedEvents_Cons:
  "servedEvents (r # rs) g =
     newEvents g (dispatch r g) @
     (if returns (dispatch r g) then servedEvents rs (result_state (dispatch r g)) else [])"
proof (cases "returns (dispatch r g)")
  case True
  have "trace (serve (r # rs) g) =
          trace g @ newEvents g (dispatch r g) @ servedEvents rs (result_state (dispatch r g))"
    using True by (simp add: serve_trace [of rs] trace_dispatch [of r g])
  then show ?thesis
    using True by (simp add: servedEvents_def [of "r # rs"])
next
  case False
  then show ?thesis
    by (simp add: servedEvents_def [of "r # rs"] trace_dispatch [of r g])
qed

lemma serve_initializes:
  "count_list (servedEvents rs g) EvSetInitialized =
     (if \<not> initialized g \<and> initialized (serve rs g) then 1 else 0)
   \<and> (initialized g \<longrightarrow> initialized (serve rs g) \<and> count_list (servedEvents rs g) EvAllocateConsole = 0)"
proof (induction rs arbitrary: g)
  case Nil
  show ?case by (simp add: servedEvents_def)
next
  case (Cons r rs)
  show ?case
    using Cons.IH [of "result_state (dispatch r g)"] dispatch_initializes [of g r]
      dispatch_keeps_initialized [of g r]
    by (auto simp add: servedEvents_Cons)
qed

lemma one_bit:
  fixes f :: "32 word"
  assumes "n < 32"
  shows "(f AND 2 ^ n = 0) = (f AND 2 ^ n \<noteq> 2 ^ n)"
proof (cases "bit f n")
  case True
  have "f AND 2 ^ n = 2 ^ n"
    by (rule bit_eqI) (use True in \<open>auto simp add: bit_and_iff bit_exp_iff\<close>)
  moreover have "(2 :: 32 word) ^ n \<noteq> 0"
    using assms by simp
  ultimately show ?thesis by simp
next
  case False
  have z: "f AND 2 ^ n = 0"
    using False by (simp add: and_exp_eq_0_iff_not_bit)
  have "(2 :: 32 word) ^ n \<noteq> 0"
    using assms by simp
  then show ?thesis by (simp add: z)
qed

lemma clear_iff_not_set:
  "WI_IsFlagClear f CONSOLE_INITIALIZED = (\<not> WI_IsFlagSet f CONSOLE_INITIALIZED)"
proof -
  have c: "CONSOLE_INITIALIZED = 2 ^ 30"
    by (simp add: CONSOLE_INITIALIZED_def)
  show ?thesis
    using one_bit [of 30 f] by (simp only: WI_IsFlagClear_def WI_IsFlagSet_def c)
qed

lemma dispatch_step:
  "initialized (result_state (dispatch r g)) = (initialized g \<or> initializes r g)"
  "count_list (newEvents g (dispatch r g)) EvSetInitialized = (if initializes r g then 1 else 0)"
  "count_list (newEvents g (dispatch r g)) EvAllocateConsole = (if runsInitializer r g then 1 else 0)"
proof -
  show "initialized (result_state (dispatch r g)) = (initialized g \<or> initializes r g)"
  proof (cases r)
    case (ConnectionRequest env m)
    show ?thesis
      by (auto simp add: ConnectionRequest connection_Flags initialized_def initialized_flagsAfterInit
            servedLocally_def clear_iff_not_set)
  qed (simp_all add: Flags_create Flags_close Flags_disconnect initialized_def)
  show "count_list (newEvents g (dispatch r g)) EvSetInitialized = (if initializes r g then 1 else 0)"
  proof (cases r)
    case (ConnectionRequest env m)
    show ?thesis
      by (auto simp add: ConnectionRequest connection_newEvents count_connection_init initialized_def
            servedLocally_def clear_iff_not_set)
  qed (simp_all add: no_init_create no_init_close no_init_disconnect)
  show "count_list (newEvents g (dispatch r g)) EvAllocateConsole = (if runsInitializer r g then 1 else 0)"
  proof (cases r)
    case (ConnectionRequest env m)
    show ?thesis
      by (auto simp add: ConnectionRequest connection_newEvents count_connection_init initialized_def
            servedLocally_def clear_iff_not_set)
  qed (simp_all add: no_init_create no_init_close no_init_disconnect)
qed

lemma serve_steps: "count_list (servedEvents rs g) EvSetInitialized = initializingSteps rs g"
proof (induction rs arbitrary: g)
  case Nil
  show ?case by (simp add: servedEvents_def)
next
  case (Cons r rs)
  show ?case
    by (simp add: servedEvents_Cons Cons.IH dispatch_step(2))
qed

text \<open>
  C5. A request sets the flag \<^verbatim>\<open>CONSOLE_INITIALIZED\<close> exactly when it is a successfully
  initializing connection: a connection request served locally on a session not yet
  initialized, whose process record is allocated and for which \<^verbatim>\<open>ConsoleAllocateConsole\<close>,
  the session initializer, succeeds. The session is initialized after a request exactly when
  it was before or the request is such a connection; a connection whose initializer fails
  leaves the flag clear. The initializer is called exactly by the connection requests
  served locally on a session not yet initialized. Over any sequence of requests to the four
  entry points, from any state, the flag is set as often as there are successfully
  initializing connections among them, which is at most once, and it is set exactly when
  the session was not initialized before and is initialized after. From an initialized state
  on, the session stays initialized and the initializer is not called again.
\<close>

theorem session_initialized_once:
  "count_list (servedEvents rs g) EvSetInitialized \<le> 1
   \<and> (count_list (servedEvents rs g) EvSetInitialized = 1) = (\<not> initialized g \<and> initialized (serve rs g))
   \<and> (initialized g \<longrightarrow>
         initialized (serve rs g) \<and> count_list (servedEvents rs g) EvAllocateConsole = 0 \<and>
         count_list (servedEvents rs g) EvSetInitialized = 0)
   \<and> count_list (servedEvents rs g) EvSetInitialized = initializingSteps rs g
   \<and> initialized (result_state (dispatch r g')) = (initialized g' \<or> initializes r g')
   \<and> count_list (newEvents g' (dispatch r g')) EvSetInitialized = (if initializes r g' then 1 else 0)
   \<and> count_list (newEvents g' (dispatch r g')) EvAllocateConsole = (if runsInitializer r g' then 1 else 0)"
  using serve_initializes [of rs g] serve_steps [of rs g] dispatch_step [where r = r and g = g'] by auto

lemma ex_first_Flags:
  "gci_Flags (result_state (ConsoleHandleConnectionRequest connectOk exampleMsg freshSession)) =
     CONSOLE_INITIALIZED"
  using ex_should_fresh
  by (simp add: connection_Flags flagsAfterInit_def example_defs status_defs flag_defs)

lemma ex_failing_initializer:
  "runsInitializer (ConnectionRequest initializerFails exampleMsg) freshSession"
  "\<not> initializes (ConnectionRequest initializerFails exampleMsg) freshSession"
  "initializes (ConnectionRequest connectOk exampleMsg) freshSession"
  by (simp_all add: initialized_def servedLocally_def shouldAttemptHandoff_def example_defs
        status_defs flag_defs)

text \<open>
  Two connections to a fresh session: the first initializes it, the second does not. And a
  connection whose initializer fails: it has called the initializer, and the session is not
  initialized afterwards.
\<close>

theorem session_initialized_once_witness:
  "\<not> initialized freshSession
   \<and> initialized (serve [ConnectionRequest connectOk exampleMsg, ConnectionRequest connectOk exampleMsg] freshSession)
   \<and> count_list (servedEvents [ConnectionRequest connectOk exampleMsg, ConnectionRequest connectOk exampleMsg]
                    freshSession) EvSetInitialized = 1
   \<and> initialized (result_state (ConsoleHandleConnectionRequest connectOk exampleMsg freshSession))
   \<and> count_list (servedEvents [ConnectionRequest connectOk exampleMsg]
                    (result_state (ConsoleHandleConnectionRequest connectOk exampleMsg freshSession)))
        EvAllocateConsole = 0
   \<and> \<not> initialized (result_state (ConsoleHandleConnectionRequest initializerFails exampleMsg freshSession))
   \<and> count_list (newEvents freshSession
                    (ConsoleHandleConnectionRequest initializerFails exampleMsg freshSession))
        EvAllocateConsole = 1
   \<and> count_list (newEvents freshSession
                    (ConsoleHandleConnectionRequest initializerFails exampleMsg freshSession))
        EvSetInitialized = 0"
proof -
  let ?c = "ConnectionRequest connectOk exampleMsg"
  let ?f = "ConnectionRequest initializerFails exampleMsg"
  let ?g1 = "result_state (ConsoleHandleConnectionRequest connectOk exampleMsg freshSession)"
  have a: "\<not> initialized freshSession"
    by (simp add: initialized_def freshSession_def flag_defs)
  have b: "initialized ?g1"
    by (simp add: initialized_def ex_first_Flags flag_defs)
  have r: "returns (ConsoleHandleConnectionRequest connectOk exampleMsg freshSession)"
    using ex_should_fresh by (simp add: connection_returns connectOk_def)
  have s: "serve [?c, ?c] freshSession = serve [?c] ?g1"
    using r by simp
  have c: "initialized (serve [?c, ?c] freshSession)"
    using session_initialized_once [where rs = "[?c]" and g = ?g1 and r = ?c and g' = freshSession] b
    by (simp only: s)
  have d: "dispatch ?f freshSession = ConsoleHandleConnectionRequest initializerFails exampleMsg freshSession"
    by simp
  show ?thesis
    using session_initialized_once [where rs = "[?c, ?c]" and g = freshSession and r = ?f and g' = freshSession]
          session_initialized_once [where rs = "[?c]" and g = ?g1 and r = ?c and g' = freshSession]
          a b c ex_failing_initializer
    by (simp only: d) simp
qed

subsection \<open>The state a connection leaves\<close>

lemma fresh_map:
  "list_all (\<lambda>e. fst e < (a::nat)) xs \<Longrightarrow> map (\<lambda>e. if fst e = a then F e else e) xs = xs"
  by (induction xs) auto

lemma fresh_filter: "list_all (\<lambda>e. fst e < (a::nat)) xs \<Longrightarrow> filter (\<lambda>e. fst e \<noteq> a) xs = xs"
  by (induction xs) auto

lemma fresh_filter_eq: "list_all (\<lambda>e. fst e < (a::nat)) xs \<Longrightarrow> filter (\<lambda>e. fst e = a) xs = []"
  by (induction xs) auto

lemma fresh_filter2:
  "list_all (\<lambda>e. fst e < (a::nat)) xs \<Longrightarrow>
     filter (\<lambda>e. fst e \<noteq> Suc a \<and> fst e \<noteq> Suc (Suc a)) xs = xs"
  by (induction xs) auto

lemma localBringUp_success:
  assumes "bringUpCompletes env (gci_Flags g)"
  shows "body_state (localBringUp env Cac m g) =
           snd (completeConnection env (nextAddress g) m
             (snd (createPrimaryHandles env (nextAddress g)
               (snd (associateHistory env Cac (nextAddress g)
                 (snd (initializeSession env (e_AllocProcessData env)
                   (snd (registerProcess env Cac m g)))))))))"
  using assms
  by (simp add: localBringUp_def case_prod_unfold stage_simps bringUpCompletes_def split: option.splits)

lemma registerProcess_lists:
  assumes "NT_SUCCESS (e_AllocProcessData env)"
    and "list_all (\<lambda>e. fst e < nextAddress g) (gci_ProcessHandleList g)"
  shows "gci_ProcessHandleList (snd (registerProcess env (e_Cac env) m g)) =
           gci_ProcessHandleList g @
           [(nextAddress g, (newProcess env m g)\<lparr>pInputHandle := None, pOutputHandle := None\<rparr>)]"
    and "handleHeap (snd (registerProcess env (e_Cac env) m g)) = handleHeap g"
    and "CommandHistory (snd (registerProcess env (e_Cac env) m g)) = CommandHistory g"
  using assms
  by (simp_all add: registerProcess_def AllocProcessData_def updProcess_def emit_def Let_def
        newProcess_def fresh_map)

lemma initializeSession_lists:
  "gci_ProcessHandleList (snd (initializeSession env st g)) = gci_ProcessHandleList g"
  "handleHeap (snd (initializeSession env st g)) = handleHeap g"
  "CommandHistory (snd (initializeSession env st g)) = CommandHistory g"
  by (simp_all add: initializeSession_def emit_def Let_def)

lemma associateHistory_lists:
  "gci_ProcessHandleList (snd (associateHistory env Cac p g)) = gci_ProcessHandleList g"
  "handleHeap (snd (associateHistory env Cac p g)) = handleHeap g"
  "CommandHistory (snd (associateHistory env Cac p g)) =
     CommandHistory g @
     (if e_HistoryAllocate env = HistoryAllocated then [(p, take (AppNameLength Cac div 2) (AppName Cac))]
      else [])"
  by (simp_all add: associateHistory_def s_Allocate_def emit_def split: history_outcome.splits)

lemma createPrimaryHandles_lists:
  assumes "NT_SUCCESS (e_AllocateInputHandle env)" and "NT_SUCCESS (e_AllocateOutputHandle env)"
  shows "gci_ProcessHandleList (snd (createPrimaryHandles env p g)) =
           map (\<lambda>e. if fst e = p
                     then (fst e, (snd e)\<lparr>pInputHandle := Some (nextAddress g),
                                           pOutputHandle := Some (Suc (nextAddress g))\<rparr>)
                     else e) (gci_ProcessHandleList g)"
    and "handleHeap (snd (createPrimaryHandles env p g)) =
           handleHeap g @
           [(nextAddress g, \<lparr>hd_type = Input, hd_object = InputBuffer,
               hd_access = GENERIC_READ OR GENERIC_WRITE, hd_share = FILE_SHARE_READ OR FILE_SHARE_WRITE\<rparr>),
            (Suc (nextAddress g), \<lparr>hd_type = Output, hd_object = ActiveOutputBuffer,
               hd_access = GENERIC_READ OR GENERIC_WRITE, hd_share = FILE_SHARE_READ OR FILE_SHARE_WRITE\<rparr>)]"
    and "CommandHistory (snd (createPrimaryHandles env p g)) = CommandHistory g"
  using assms
  by (simp_all add: createPrimaryHandles_def AllocateIoHandle_def updProcess_def emit_def Let_def
        comp_def cong: if_cong)

lemma completeConnection_lists:
  "gci_ProcessHandleList (snd (completeConnection env p m g)) =
     (if FAILED (e_CompleteIo env) then filter (\<lambda>e. fst e \<noteq> p) (gci_ProcessHandleList g)
      else gci_ProcessHandleList g)"
  "handleHeap (snd (completeConnection env p m g)) =
     (if FAILED (e_CompleteIo env)
      then filter (\<lambda>e. fst e \<notin> set (concat (map (\<lambda>e. ownedHandles (snd e))
                                          (filter (\<lambda>e. fst e = p) (gci_ProcessHandleList g)))))
             (handleHeap g)
      else handleHeap g)"
  "CommandHistory (snd (completeConnection env p m g)) =
     (if FAILED (e_CompleteIo env) then filter (\<lambda>e. fst e \<noteq> p) (CommandHistory g)
      else CommandHistory g)"
  by (simp_all add: completeConnection_def FreeProcessData_def s_Free_def emit_def Let_def)

lemma bringUp_success_state:
  assumes ok: "bringUpCompletes env (gci_Flags g)" and wf: "addr_wf g"
  shows "gci_ProcessHandleList (body_state (localBringUp env (e_Cac env) m g)) =
           gci_ProcessHandleList g @
           (if FAILED (e_CompleteIo env) then [] else [(nextAddress g, newProcess env m g)])"
    and "handleHeap (body_state (localBringUp env (e_Cac env) m g)) =
           handleHeap g @ (if FAILED (e_CompleteIo env) then [] else primaryHandles (nextAddress g))"
    and "CommandHistory (body_state (localBringUp env (e_Cac env) m g)) =
           CommandHistory g @ (if FAILED (e_CompleteIo env) then [] else historySlot env (nextAddress g))"
proof -
  let ?a = "nextAddress g"
  have p: "list_all (\<lambda>e. fst e < ?a) (gci_ProcessHandleList g)"
    and c: "list_all (\<lambda>e. fst e < ?a) (CommandHistory g)"
    and h: "list_all (\<lambda>e. fst e < ?a) (handleHeap g)"
    using wf by (simp_all add: addr_wf_def)
  have al: "NT_SUCCESS (e_AllocProcessData env)"
    and io: "NT_SUCCESS (e_AllocateInputHandle env)" "NT_SUCCESS (e_AllocateOutputHandle env)"
    using ok by (simp_all add: bringUpCompletes_def)
  let ?g1 = "snd (registerProcess env (e_Cac env) m g)"
  let ?g2 = "snd (initializeSession env (e_AllocProcessData env) ?g1)"
  let ?g3 = "snd (associateHistory env (e_Cac env) ?a ?g2)"
  let ?g4 = "snd (createPrimaryHandles env ?a ?g3)"
  let ?g5 = "snd (completeConnection env ?a m ?g4)"
  have final: "body_state (localBringUp env (e_Cac env) m g) = ?g5"
    by (rule localBringUp_success [OF ok])
  have n3: "nextAddress ?g3 = Suc ?a"
    using al by (simp add: stage_simps)
  have P3: "gci_ProcessHandleList ?g3 =
              gci_ProcessHandleList g @
              [(?a, (newProcess env m g)\<lparr>pInputHandle := None, pOutputHandle := None\<rparr>)]"
    by (simp add: associateHistory_lists initializeSession_lists registerProcess_lists [OF al p])
  have H3: "handleHeap ?g3 = handleHeap g"
    by (simp add: associateHistory_lists initializeSession_lists registerProcess_lists [OF al p])
  have C3: "CommandHistory ?g3 = CommandHistory g @ historySlot env ?a"
    by (simp add: associateHistory_lists initializeSession_lists registerProcess_lists [OF al p]
          historySlot_def)
  have P4: "gci_ProcessHandleList ?g4 = gci_ProcessHandleList g @ [(?a, newProcess env m g)]"
    using p by (simp add: createPrimaryHandles_lists [OF io] P3 n3 fresh_map newProcess_def)
  have H4: "handleHeap ?g4 = handleHeap g @ primaryHandles ?a"
    by (simp add: createPrimaryHandles_lists [OF io] H3 n3 primaryHandles_def)
  have C4: "CommandHistory ?g4 = CommandHistory g @ historySlot env ?a"
    by (simp add: createPrimaryHandles_lists [OF io] C3)
  show "gci_ProcessHandleList (body_state (localBringUp env (e_Cac env) m g)) =
           gci_ProcessHandleList g @
           (if FAILED (e_CompleteIo env) then [] else [(nextAddress g, newProcess env m g)])"
    using p by (simp add: final completeConnection_lists P4 fresh_filter)
  show "handleHeap (body_state (localBringUp env (e_Cac env) m g)) =
           handleHeap g @ (if FAILED (e_CompleteIo env) then [] else primaryHandles (nextAddress g))"
    using p h
    by (simp add: final completeConnection_lists P4 H4 fresh_filter_eq fresh_filter2
          newProcess_def primaryHandles_def ownedHandles_def)
  show "CommandHistory (body_state (localBringUp env (e_Cac env) m g)) =
           CommandHistory g @ (if FAILED (e_CompleteIo env) then [] else historySlot env (nextAddress g))"
    using c by (simp add: final completeConnection_lists C4 fresh_filter historySlot_def)
qed

lemma attemptHandoff_lists:
  "gci_ProcessHandleList (handoff_state (attemptHandoff env g)) = gci_ProcessHandleList g"
  "handleHeap (handoff_state (attemptHandoff env g)) = handleHeap g"
  "CommandHistory (handoff_state (attemptHandoff env g)) = CommandHistory g"
  by (simp_all add: attemptHandoff_def prim_defs Let_def case_prod_unfold split: option.splits)

lemma bringUpStart_fields:
  "gci_Flags (bringUpStart env g) = gci_Flags g"
  "nextAddress (bringUpStart env g) = nextAddress g"
  "gci_InVtIoMode (bringUpStart env g) = gci_InVtIoMode g"
  "gci_ProcessHandleList (bringUpStart env g) = gci_ProcessHandleList g"
  "handleHeap (bringUpStart env g) = handleHeap g"
  "CommandHistory (bringUpStart env g) = CommandHistory g"
  by (simp_all add: bringUpStart_def Let_def attemptHandoff_Flags attemptHandoff_nextAddress
        attemptHandoff_InVtIoMode attemptHandoff_lists LockConsole_def emit_def)

lemma bringUpStart_wf: "addr_wf (bringUpStart env g) = addr_wf g"
  by (simp add: addr_wf_def bringUpStart_fields)

lemma connectionBody_local:
  assumes "servedLocally env g"
  shows "connectionBody env m (LockConsole (emit EvTelemetry g)) =
           localBringUp env (e_Cac env) m (bringUpStart env g)"
  using assms
  by (auto simp add: servedLocally_def connectionBody_def bringUpStart_def Let_def handoff_case
        LockConsole_def emit_def shouldAttemptHandoff_trace)

lemma connection_success:
  assumes "servedLocally env g" and "bringUpCompletes env (gci_Flags g)"
  shows "ConsoleHandleConnectionRequest env m g =
           Completed (successReply m)
             (UnlockConsole (body_state (localBringUp env (e_Cac env) m (bringUpStart env g))))"
proof -
  have st: "NT_SUCCESS (bringUpStatus env (gci_Flags g))"
    using assms(2) by (simp add: bringUpStatus_def bringUpCompletes_def)
  show ?thesis
    using assms(2) st
    by (simp add: ConsoleHandleConnectionRequest_def Let_def connectionBody_local [OF assms(1)]
          body_case localBringUp_shape bringUpStart_fields case_prod_unfold cleanup_def
          successReply_def)
qed

text \<open>
  C4. A connection request with a valid descriptor of a console application, on a session
  that is not initialized and has no process, handle or history, with no handoff attempted
  and every collaborator succeeding, is completed inside with reply status
  \<^verbatim>\<open>STATUS_SUCCESS\<close>. Afterwards the session is initialized; the process list holds exactly
  one record, with the ids of the request, the root flag set and both handle members
  filled; and the heap holds exactly two handle objects, one of type input on the input
  buffer and one of type output on the active output buffer, both with read and write
  access and read and write sharing.
\<close>

theorem first_connection_end_to_end:
  assumes "NT_SUCCESS (e_InitializeConnectInfo env)" and "ConsoleApp (e_Cac env)"
    and "freshState g" and "\<not> shouldAttemptHandoff env g (e_Cac env)"
    and "bringUpCompletes env (gci_Flags g)" and "SUCCEEDED (e_CompleteIo env)"
  shows "ConsoleHandleConnectionRequest env m g =
           Completed (successReply m) (result_state (ConsoleHandleConnectionRequest env m g))
       \<and> ReplyStatus (successReply m) = Some STATUS_SUCCESS
       \<and> WI_IsFlagSet (gci_Flags (result_state (ConsoleHandleConnectionRequest env m g))) CONSOLE_INITIALIZED
       \<and> gci_ProcessHandleList (result_state (ConsoleHandleConnectionRequest env m g)) =
           [(nextAddress g,
             \<lparr>dwProcessId = ucast (Descriptor_Process m), dwThreadId = ucast (Descriptor_Object m),
              ulProcessGroupId = ProcessGroupId (e_Cac env), fRootProcess = True,
              pInputHandle = Some (Suc (nextAddress g)),
              pOutputHandle = Some (Suc (Suc (nextAddress g)))\<rparr>)]
       \<and> handleHeap (result_state (ConsoleHandleConnectionRequest env m g)) =
           [(Suc (nextAddress g),
             \<lparr>hd_type = Input, hd_object = InputBuffer, hd_access = GENERIC_READ OR GENERIC_WRITE,
              hd_share = FILE_SHARE_READ OR FILE_SHARE_WRITE\<rparr>),
            (Suc (Suc (nextAddress g)),
             \<lparr>hd_type = Output, hd_object = ActiveOutputBuffer, hd_access = GENERIC_READ OR GENERIC_WRITE,
              hd_share = FILE_SHARE_READ OR FILE_SHARE_WRITE\<rparr>)]"
proof -
  have loc: "servedLocally env g"
    using assms(1,4) by (simp add: servedLocally_def)
  have ok: "bringUpCompletes env (gci_Flags (bringUpStart env g))"
    using assms(5) by (simp add: bringUpStart_fields)
  have "addr_wf g"
    using assms(3) by (simp add: addr_wf_def freshState_def)
  then have wf: "addr_wf (bringUpStart env g)"
    by (simp add: bringUpStart_wf)
  note S = bringUp_success_state [OF ok wf, of m]
  have nf: "\<not> FAILED (e_CompleteIo env)"
    using assms(6) by (simp add: FAILED_iff)
  have clear: "WI_IsFlagClear (gci_Flags g) CONSOLE_INITIALIZED"
    using assms(3) by (simp add: freshState_def)
  have flags: "WI_IsFlagSet (gci_Flags (result_state (ConsoleHandleConnectionRequest env m g))) CONSOLE_INITIALIZED"
    using assms(1,4,5) clear
    by (simp add: connection_Flags initialized_flagsAfterInit bringUpCompletes_def)
  show ?thesis
    using assms(3) nf clear flags
    by (simp add: connection_success [OF loc assms(5)] UnlockConsole_def emit_def S
          bringUpStart_fields freshState_def newProcess_def primaryHandles_def successReply_def)
qed

text \<open>
  The request of process 100, thread 7, for \<^verbatim>\<open>cmd.exe\<close>, on the fresh session.
\<close>

theorem first_connection_end_to_end_witness:
  "NT_SUCCESS (e_InitializeConnectInfo connectOk) \<and> ConsoleApp (e_Cac connectOk) \<and>
   freshState freshSession \<and> \<not> shouldAttemptHandoff connectOk freshSession (e_Cac connectOk) \<and>
   bringUpCompletes connectOk (gci_Flags freshSession) \<and> SUCCEEDED (e_CompleteIo connectOk) \<and>
   ConsoleHandleConnectionRequest connectOk exampleMsg freshSession =
     Completed (successReply exampleMsg)
       (result_state (ConsoleHandleConnectionRequest connectOk exampleMsg freshSession)) \<and>
   WI_IsFlagSet (gci_Flags (result_state (ConsoleHandleConnectionRequest connectOk exampleMsg freshSession)))
     CONSOLE_INITIALIZED \<and>
   gci_ProcessHandleList (result_state (ConsoleHandleConnectionRequest connectOk exampleMsg freshSession)) =
     [(0, \<lparr>dwProcessId = 100, dwThreadId = 7, ulProcessGroupId = 100, fRootProcess = True,
           pInputHandle = Some 1, pOutputHandle = Some 2\<rparr>)] \<and>
   map fst (handleHeap (result_state (ConsoleHandleConnectionRequest connectOk exampleMsg freshSession))) = [1, 2]"
proof -
  have h1: "NT_SUCCESS (e_InitializeConnectInfo connectOk)"
    by (simp add: connectOk_def status_defs)
  have h2: "ConsoleApp (e_Cac connectOk)"
    by (simp add: connectOk_def exampleCac_def)
  have h3: "freshState freshSession"
    by (simp add: freshState_def freshSession_def flag_defs)
  have h4: "\<not> shouldAttemptHandoff connectOk freshSession (e_Cac connectOk)"
    using ex_should_fresh by (simp add: connectOk_def)
  have h5: "bringUpCompletes connectOk (gci_Flags freshSession)"
    using ex_completes by (simp add: freshSession_def)
  have h6: "SUCCEEDED (e_CompleteIo connectOk)"
    by (simp add: connectOk_def status_defs)
  have v: "nextAddress freshSession = 0" "ucast (Descriptor_Process exampleMsg) = (100 :: DWORD)"
      "ucast (Descriptor_Object exampleMsg) = (7 :: DWORD)" "ProcessGroupId (e_Cac connectOk) = 100"
    by (simp_all add: freshSession_def exampleMsg_def connectOk_def exampleCac_def)
  show ?thesis
    using first_connection_end_to_end [OF h1 h2 h3 h4 h5 h6, of exampleMsg] h1 h2 h3 h4 h5 h6
    by (simp add: v)
qed

lemma rollback_handoff: "filter isRollback (handoffEvents env n h) = []"
  by (cases h) (simp_all add: handoff_event_defs)

lemma rollback_bringUp:
  "filter isRollback (bringUpEvents env cac f v a) =
     (if bringUpCompletes env f \<and> FAILED (e_CompleteIo env) then [EvHistoryFree a, EvFreeProcessData a]
      else [])"
  by (simp add: bringUp_event_defs bringUpCompletes_def split: history_outcome.splits)

lemma rollback_cleanup:
  "filter isRollback (cleanupEvents st p) =
     (case p of None \<Rightarrow> []
      | Some a \<Rightarrow> if NT_SUCCESS st then [] else [EvHistoryFree a, EvFreeProcessData a])"
  by (cases p) simp_all

lemma rollback_connection:
  assumes "servedLocally env g"
  shows "filter isRollback (connectionEvents env g) =
           (if NT_SUCCESS (e_AllocProcessData env) \<and>
               (\<not> NT_SUCCESS (bringUpStatus env (gci_Flags g)) \<or>
                bringUpCompletes env (gci_Flags g) \<and> FAILED (e_CompleteIo env))
            then [EvHistoryFree (nextAddress g), EvFreeProcessData (nextAddress g)] else [])"
  using assms
  by (auto simp add: servedLocally_def connectionEvents_def localEvents_def rollback_handoff
        rollback_bringUp rollback_cleanup bringUpStatus_def bringUpCompletes_def)

lemma servedLocally_output:
  "servedLocally (env\<lparr>e_AllocateOutputHandle := st\<rparr>) g = servedLocally env g"
  by (simp add: servedLocally_def shouldAttemptHandoff_def handoffExits_def cong: if_cong)

text \<open>
  C9. When a connection served locally has passed every step up to the reply and
  \<^verbatim>\<open>CompleteIo\<close> then fails, the history slot and the process record of the request are
  freed: process list, history table and handle heap are what they were before the request.
  The slot and the record are each freed once, in this order, and a request that fails
  inside the protocol (here: at the output handle) frees them in the same way.
\<close>

theorem undelivered_reply_rolls_back:
  assumes "servedLocally env g" and "bringUpCompletes env (gci_Flags g)"
    and "FAILED (e_CompleteIo env)" and "addr_wf g"
  shows "gci_ProcessHandleList (result_state (ConsoleHandleConnectionRequest env m g)) = gci_ProcessHandleList g
       \<and> CommandHistory (result_state (ConsoleHandleConnectionRequest env m g)) = CommandHistory g
       \<and> handleHeap (result_state (ConsoleHandleConnectionRequest env m g)) = handleHeap g
       \<and> filter isRollback (newEvents g (ConsoleHandleConnectionRequest env m g)) =
           [EvHistoryFree (nextAddress g), EvFreeProcessData (nextAddress g)]
       \<and> (\<not> NT_SUCCESS st \<longrightarrow>
            filter isRollback
              (newEvents g (ConsoleHandleConnectionRequest (env\<lparr>e_AllocateOutputHandle := st\<rparr>) m g)) =
            [EvHistoryFree (nextAddress g), EvFreeProcessData (nextAddress g)])"
proof -
  have ok: "bringUpCompletes env (gci_Flags (bringUpStart env g))"
    using assms(2) by (simp add: bringUpStart_fields)
  have wf: "addr_wf (bringUpStart env g)"
    using assms(4) by (simp add: bringUpStart_wf)
  note S = bringUp_success_state [OF ok wf, of m]
  have lists: "gci_ProcessHandleList (result_state (ConsoleHandleConnectionRequest env m g)) = gci_ProcessHandleList g"
      "CommandHistory (result_state (ConsoleHandleConnectionRequest env m g)) = CommandHistory g"
      "handleHeap (result_state (ConsoleHandleConnectionRequest env m g)) = handleHeap g"
    using assms(3)
    by (simp_all add: connection_success [OF assms(1,2)] UnlockConsole_def emit_def S bringUpStart_fields)
  have al: "NT_SUCCESS (e_AllocProcessData env)" "NT_SUCCESS (e_AllocateInputHandle env)"
    using assms(2) by (simp_all add: bringUpCompletes_def)
  have r1: "filter isRollback (newEvents g (ConsoleHandleConnectionRequest env m g)) =
              [EvHistoryFree (nextAddress g), EvFreeProcessData (nextAddress g)]"
    using assms(2,3) al by (simp add: connection_newEvents rollback_connection [OF assms(1)])
  have r2: "filter isRollback
              (newEvents g (ConsoleHandleConnectionRequest (env\<lparr>e_AllocateOutputHandle := st\<rparr>) m g)) =
            [EvHistoryFree (nextAddress g), EvFreeProcessData (nextAddress g)]"
    if "\<not> NT_SUCCESS st"
  proof -
    have loc: "servedLocally (env\<lparr>e_AllocateOutputHandle := st\<rparr>) g"
      using assms(1) by (simp add: servedLocally_output)
    show ?thesis
      using that assms(2) al
      by (simp add: connection_newEvents rollback_connection [OF loc] bringUpStatus_def
            bringUpCompletes_def)
  qed
  show ?thesis
    using lists r1 r2 by simp
qed

lemma ex_second_local: "servedLocally replyUndelivered connectedSession"
  by (simp add: servedLocally_def shouldAttemptHandoff_def example_defs status_defs flag_defs)

text \<open>
  A second process connecting to the initialized session, its reply undelivered.
\<close>

theorem undelivered_reply_rolls_back_witness:
  "servedLocally replyUndelivered connectedSession
   \<and> bringUpCompletes replyUndelivered (gci_Flags connectedSession)
   \<and> FAILED (e_CompleteIo replyUndelivered) \<and> addr_wf connectedSession
   \<and> gci_ProcessHandleList (result_state (ConsoleHandleConnectionRequest replyUndelivered exampleMsg connectedSession))
       = gci_ProcessHandleList connectedSession
   \<and> CommandHistory (result_state (ConsoleHandleConnectionRequest replyUndelivered exampleMsg connectedSession))
       = CommandHistory connectedSession
   \<and> handleHeap (result_state (ConsoleHandleConnectionRequest replyUndelivered exampleMsg connectedSession))
       = handleHeap connectedSession
   \<and> filter isRollback (newEvents connectedSession
         (ConsoleHandleConnectionRequest replyUndelivered exampleMsg connectedSession)) =
       [EvHistoryFree 3, EvFreeProcessData 3]
   \<and> filter isRollback (newEvents connectedSession
         (ConsoleHandleConnectionRequest (replyUndelivered\<lparr>e_AllocateOutputHandle := STATUS_NO_MEMORY\<rparr>)
            exampleMsg connectedSession)) =
       [EvHistoryFree 3, EvFreeProcessData 3]"
proof -
  have h2: "bringUpCompletes replyUndelivered (gci_Flags connectedSession)"
    by (simp add: bringUpCompletes_def example_defs status_defs flag_defs)
  have h3: "FAILED (e_CompleteIo replyUndelivered)"
    by (simp add: example_defs status_defs)
  have h4: "addr_wf connectedSession"
    by (simp add: addr_wf_def connectedSession_def freshSession_def primaryHandles_def)
  have n: "nextAddress connectedSession = 3" "\<not> NT_SUCCESS STATUS_NO_MEMORY"
    by (simp_all add: connectedSession_def status_defs)
  show ?thesis
    using undelivered_reply_rolls_back [OF ex_second_local h2 h3 h4, where st = STATUS_NO_MEMORY and m = exampleMsg]
      ex_second_local h2 h3 h4 n
    by simp
qed

subsection \<open>A throwing history allocation\<close>

lemma localBringUp_threw:
  assumes "NT_SUCCESS (e_AllocProcessData env)"
    and "WI_IsFlagClear (gci_Flags g) CONSOLE_INITIALIZED \<longrightarrow> NT_SUCCESS (e_AllocateConsole env)"
    and "e_HistoryAllocate env = HistoryThrew"
  shows "body_state (localBringUp env Cac m g) =
           snd (associateHistory env Cac (nextAddress g)
                 (snd (initializeSession env (e_AllocProcessData env)
                   (snd (registerProcess env Cac m g)))))"
  using assms
  by (simp add: localBringUp_def case_prod_unfold stage_simps split: option.splits)

lemma connection_history_threw:
  assumes loc: "servedLocally env g"
    and al: "NT_SUCCESS (e_AllocProcessData env)"
    and con: "WI_IsFlagClear (gci_Flags g) CONSOLE_INITIALIZED \<longrightarrow> NT_SUCCESS (e_AllocateConsole env)"
    and threw: "e_HistoryAllocate env = HistoryThrew"
    and wf: "addr_wf g"
  shows "ConsoleHandleConnectionRequest env m g =
           Reply m (result_state (ConsoleHandleConnectionRequest env m g))"
    and "handleHeap (result_state (ConsoleHandleConnectionRequest env m g)) = handleHeap g"
    and "CommandHistory (result_state (ConsoleHandleConnectionRequest env m g)) = CommandHistory g"
    and "gci_ProcessHandleList (result_state (ConsoleHandleConnectionRequest env m g)) =
           gci_ProcessHandleList g @
           [(nextAddress g, (newProcess env m g)\<lparr>pInputHandle := None, pOutputHandle := None\<rparr>)]"
proof -
  let ?s = "bringUpStart env g"
  have st: "NT_SUCCESS (bringUpStatus env (gci_Flags g))" "\<not> bringUpCompletes env (gci_Flags g)"
    using al con threw by (auto simp add: bringUpStatus_def bringUpCompletes_def)
  have shape: "ConsoleHandleConnectionRequest env m g =
                 Reply m (UnlockConsole (body_state (localBringUp env (e_Cac env) m ?s)))"
    using st
    by (simp add: ConsoleHandleConnectionRequest_def Let_def connectionBody_local [OF loc]
          body_case localBringUp_shape bringUpStart_fields case_prod_unfold cleanup_def)
  have p: "list_all (\<lambda>e. fst e < nextAddress ?s) (gci_ProcessHandleList ?s)"
    using wf by (simp add: addr_wf_def bringUpStart_fields)
  have con': "WI_IsFlagClear (gci_Flags ?s) CONSOLE_INITIALIZED \<longrightarrow> NT_SUCCESS (e_AllocateConsole env)"
    using con by (simp add: bringUpStart_fields)
  note T = localBringUp_threw [OF al con' threw, of "e_Cac env" m]
  note R = registerProcess_lists [OF al p, of m]
  show "ConsoleHandleConnectionRequest env m g =
           Reply m (result_state (ConsoleHandleConnectionRequest env m g))"
    by (simp add: shape)
  show "handleHeap (result_state (ConsoleHandleConnectionRequest env m g)) = handleHeap g"
    by (simp add: shape UnlockConsole_def emit_def T associateHistory_lists initializeSession_lists R
          bringUpStart_fields)
  show "CommandHistory (result_state (ConsoleHandleConnectionRequest env m g)) = CommandHistory g"
    using threw
    by (simp add: shape UnlockConsole_def emit_def T associateHistory_lists initializeSession_lists R
          bringUpStart_fields)
  show "gci_ProcessHandleList (result_state (ConsoleHandleConnectionRequest env m g)) =
           gci_ProcessHandleList g @
           [(nextAddress g, (newProcess env m g)\<lparr>pInputHandle := None, pOutputHandle := None\<rparr>)]"
    by (simp add: shape UnlockConsole_def emit_def T associateHistory_lists initializeSession_lists R
          bringUpStart_fields newProcess_def)
qed

text \<open>
  C3. What the code does when \<^verbatim>\<open>CommandHistory::s_Allocate\<close> throws on the first
  connection to a fresh session, everything else succeeding: the handler logs and returns
  the message at once. The reply status has never been set, no handle object exists, the
  process record stays in the list with both handle members null, and the trace ends after
  the log with the release of the lock.
\<close>

theorem history_failure_aborts_connection:
  "ConsoleHandleConnectionRequest historyThrows exampleMsg freshSession =
     Reply exampleMsg (result_state (ConsoleHandleConnectionRequest historyThrows exampleMsg freshSession))
   \<and> ReplyStatus exampleMsg = None
   \<and> handleHeap (result_state (ConsoleHandleConnectionRequest historyThrows exampleMsg freshSession)) = []
   \<and> gci_ProcessHandleList (result_state (ConsoleHandleConnectionRequest historyThrows exampleMsg freshSession)) =
       [(0, \<lparr>dwProcessId = 100, dwThreadId = 7, ulProcessGroupId = 100, fRootProcess = True,
             pInputHandle = None, pOutputHandle = None\<rparr>)]
   \<and> newEvents freshSession (ConsoleHandleConnectionRequest historyThrows exampleMsg freshSession) =
       [EvTelemetry, EvLock, EvShouldAttemptHandoff, EvAllocProcessData 0, EvNotifyConsoleApplication,
        EvAccessibilityStart, EvAllocateConsole, EvSetInitialized, EvLogCaught, EvUnlock]"
proof -
  have ns: "\<not> shouldAttemptHandoff historyThrows freshSession (e_Cac historyThrows)"
    by (simp add: shouldAttemptHandoff_def example_defs)
  have loc: "servedLocally historyThrows freshSession"
    using ns by (simp add: servedLocally_def example_defs status_defs)
  have al: "NT_SUCCESS (e_AllocProcessData historyThrows)"
    by (simp add: example_defs status_defs)
  have con: "WI_IsFlagClear (gci_Flags freshSession) CONSOLE_INITIALIZED \<longrightarrow>
               NT_SUCCESS (e_AllocateConsole historyThrows)"
    by (simp add: example_defs status_defs)
  have threw: "e_HistoryAllocate historyThrows = HistoryThrew"
    by (simp add: example_defs)
  have wf: "addr_wf freshSession"
    by (simp add: addr_wf_def freshSession_def)
  note T = connection_history_threw [OF loc al con threw wf, of exampleMsg]
  have ev: "newEvents freshSession (ConsoleHandleConnectionRequest historyThrows exampleMsg freshSession) =
       [EvTelemetry, EvLock, EvShouldAttemptHandoff, EvAllocProcessData 0, EvNotifyConsoleApplication,
        EvAccessibilityStart, EvAllocateConsole, EvSetInitialized, EvLogCaught, EvUnlock]"
    using ns
    by (simp add: connection_newEvents connectionEvents_def localEvents_def bringUp_event_defs
          bringUpStatus_def example_defs status_defs flag_defs)
  have hp: "handleHeap freshSession = []" "gci_ProcessHandleList freshSession = []"
      "nextAddress freshSession = 0" "ReplyStatus exampleMsg = None"
    by (simp_all add: freshSession_def exampleMsg_def)
  have np: "(newProcess historyThrows exampleMsg freshSession)\<lparr>pInputHandle := None, pOutputHandle := None\<rparr> =
              \<lparr>dwProcessId = 100, dwThreadId = 7, ulProcessGroupId = 100, fRootProcess = True,
               pInputHandle = None, pOutputHandle = None\<rparr>"
    by (simp add: newProcess_def example_defs flag_defs)
  show ?thesis
    using T(1) ev T(2) T(4) by (simp add: hp np)
qed

subsection \<open>A failed handoff\<close>

















lemma ex_handoff_accepts:
  "shouldAttemptHandoff handoffRefused handoffSession (e_Cac handoffRefused)"
  "shouldAttemptHandoff listenerFails handoffSession (e_Cac listenerFails)"
  by (simp_all add: shouldAttemptHandoff_def example_defs isInteractiveUserSession_def flag_defs)











text \<open>
  The steps after the handler has accepted come after the failures considered above. When
  the signal listener then fails to start, the same handler catches the failure, but the
  input event has already been given away: local bring-up starts without it.
\<close>

lemma attemptHandoff_hInputEvent_cascade:
  "hInputEvent (handoff_state (attemptHandoff env g)) =
     (if FAILED (e_CoInitializeEx env) then hInputEvent g
      else if FAILED (e_CoCreateInstance env) then hInputEvent g
      else if FAILED (e_GetServerHandle env) then hInputEvent g
      else if \<not> e_CreatePipe env then hInputEvent g
      else if \<not> e_DuplicateHandle env then hInputEvent g
      else if FAILED (e_EstablishHandoff env) then hInputEvent g
      else None)"
  by (simp add: attemptHandoff_def prim_defs Let_def case_prod_unfold split: option.splits)

lemma attemptHandoff_hInputEvent:
  "\<not> exchangeFails env \<Longrightarrow> hInputEvent (handoff_state (attemptHandoff env g)) = None"
  by (simp add: attemptHandoff_hInputEvent_cascade exchangeFails_def)

lemma listener_failure_after_transfer:
  "shouldAttemptHandoff listenerFails handoffSession (e_Cac listenerFails)
   \<and> \<not> handoffExits listenerFails \<and> \<not> exchangeFails listenerFails
   \<and> hInputEvent handoffSession = Some 0
   \<and> hInputEvent (bringUpStart listenerFails handoffSession) = None"
proof -
  have a: "\<not> handoffExits listenerFails" "\<not> exchangeFails listenerFails"
    by (simp_all add: handoffExits_def exchangeFails_def example_defs status_defs)
  have b: "hInputEvent handoffSession = Some 0"
    by (simp add: example_defs)
  show ?thesis
    using ex_handoff_accepts(2) a b
    by (simp add: bringUpStart_def Let_def attemptHandoff_hInputEvent [OF a(2)])
qed

end
